theory Spec2Isabelle
  imports Complex_Main "HOL-Library.AList"
begin

section \<open>Plate validation (class PlateValidator of utils/plateValidation, in src/server.ts)\<close>

text \<open>
  A plate string is a \<^typ>\<open>string\<close>: one \<^typ>\<open>char\<close> per code unit. The classes
  \<open>[A-Z]\<close> and \<open>[0-9]\<close> of the source's regular expressions are ASCII ranges; white space
  and the case mapping are those of the ASCII range, which is what a plate can hold.
\<close>

definition isUpperAZ :: "char \<Rightarrow> bool" where
  "isUpperAZ c = (65 \<le> (of_char c :: nat) \<and> (of_char c :: nat) \<le> 90)"

definition isDigit09 :: "char \<Rightarrow> bool" where
  "isDigit09 c = (48 \<le> (of_char c :: nat) \<and> (of_char c :: nat) \<le> 57)"

definition isSpace :: "char \<Rightarrow> bool" where
  "isSpace c = ((9 \<le> (of_char c :: nat) \<and> (of_char c :: nat) \<le> 13) \<or> (of_char c :: nat) = 32)"

definition upperChar :: "char \<Rightarrow> char" where
  "upperChar c = (if 97 \<le> (of_char c :: nat) \<and> (of_char c :: nat) \<le> 122
                  then char_of ((of_char c :: nat) - 32) else c)"

definition toUpperCase :: "string \<Rightarrow> string" where
  "toUpperCase s = map upperChar s"

definition removeSpaces :: "string \<Rightarrow> string" where
  \<comment> \<open>\<open>s.replace(/\\s+/g, '')\<close>\<close>
  "removeSpaces s = filter (\<lambda>c. \<not> isSpace c) s"

definition slice :: "nat \<Rightarrow> nat \<Rightarrow> 'a list \<Rightarrow> 'a list" where
  \<comment> \<open>\<open>s.slice(a, b)\<close> for \<open>0 \<le> a\<close>, \<open>0 \<le> b\<close>\<close>
  "slice a b s = take (b - a) (drop a s)"

subsection \<open>The regular expressions\<close>

text \<open>
  Every pattern of the source is anchored (\<open>^...$\<close>) and is a sequence of character
  classes with a repetition range \<open>{lo,hi}\<close>; a literal is a class repeated once.
\<close>

datatype cclass = Upper | Digit | Lit char

fun inClass :: "cclass \<Rightarrow> char \<Rightarrow> bool" where
  "inClass Upper c = isUpperAZ c"
| "inClass Digit c = isDigit09 c"
| "inClass (Lit d) c = (c = d)"

type_synonym regex = "(cclass \<times> nat \<times> nat) list"

fun rmatch :: "regex \<Rightarrow> string \<Rightarrow> bool" where
  "rmatch [] s = (s = [])"
| "rmatch ((cl, lo, hi) # r) s =
     list_ex (\<lambda>k. k \<le> length s \<and> list_all (inClass cl) (take k s) \<and> rmatch r (drop k s))
       [lo..<Suc hi]"

definition lit :: "char \<Rightarrow> cclass \<times> nat \<times> nat" where
  "lit c = (Lit c, 1, 1)"

definition re_old_nohyphen :: regex where
  \<comment> \<open>\<open>/^[A-Z]{2}[0-9]{3}[A-Z]{2}$/\<close>\<close>
  "re_old_nohyphen = [(Upper, 2, 2), (Digit, 3, 3), (Upper, 2, 2)]"

definition re_three_nohyphen :: regex where
  \<comment> \<open>\<open>/^[A-Z]{3}[0-9]{3}[A-Z]{2}$/\<close>\<close>
  "re_three_nohyphen = [(Upper, 3, 3), (Digit, 3, 3), (Upper, 2, 2)]"

definition re_current :: regex where
  \<comment> \<open>\<open>/^[A-Z]{3}-[0-9]{3}-[A-Z]{2}$/\<close>\<close>
  "re_current = [(Upper, 3, 3), lit CHR ''-'', (Digit, 3, 3), lit CHR ''-'', (Upper, 2, 2)]"

definition re_legacy :: regex where
  \<comment> \<open>\<open>/^[A-Z]{2,3}-[0-9]{3}-[A-Z]{1,2}$/\<close>\<close>
  "re_legacy = [(Upper, 2, 3), lit CHR ''-'', (Digit, 3, 3), lit CHR ''-'', (Upper, 1, 2)]"

definition re_government :: regex where
  \<comment> \<open>\<open>/^[A-Z]{3,6}-[0-9]{3}$/\<close>\<close>
  "re_government = [(Upper, 3, 6), lit CHR ''-'', (Digit, 3, 3)]"

definition re_diplomatic :: regex where
  \<comment> \<open>\<open>/^CD-[0-9]{3}-[A-Z]$/\<close>\<close>
  "re_diplomatic = [lit CHR ''C'', lit CHR ''D'', lit CHR ''-'', (Digit, 3, 3), lit CHR ''-'',
                    (Upper, 1, 1)]"

definition re_military :: regex where
  \<comment> \<open>\<open>/^MIL-[0-9]{3}$/\<close>\<close>
  "re_military = [lit CHR ''M'', lit CHR ''I'', lit CHR ''L'', lit CHR ''-'', (Digit, 3, 3)]"

subsection \<open>normalizePlateNumber\<close>

definition normalizePlateNumber :: "string \<Rightarrow> string" where
  "normalizePlateNumber plateNumber =
     (if plateNumber = [] then []
      else
        let n0 = toUpperCase (removeSpaces plateNumber);
            n1 = (if rmatch re_old_nohyphen n0
                  then slice 0 2 n0 @ ''-'' @ slice 2 5 n0 @ ''-'' @ drop 5 n0 else n0);
            n2 = (if rmatch re_three_nohyphen n1
                  then slice 0 3 n1 @ ''-'' @ slice 3 6 n1 @ ''-'' @ drop 6 n1 else n1)
        in n2)"

subsection \<open>Plate formats and state codes\<close>

datatype plate_category = Private | Commercial | Government | Diplomatic | Military

record plate_format =
  pattern :: regex
  description :: string
  example :: string
  category :: plate_category

definition NIGERIAN_PLATE_FORMATS :: "plate_format list" where
  "NIGERIAN_PLATE_FORMATS =
     [\<lparr>pattern = re_current,
        description = ''Current Nigerian format (3 letters, 3 numbers, 2 letters)'',
        example = ''ABC-123-DE'', category = Private\<rparr>,
      \<lparr>pattern = re_legacy,
        description = ''Old Nigerian format (2-3 letters, 3 numbers, 1-2 letters)'',
        example = ''AB-123-CD'', category = Private\<rparr>,
      \<lparr>pattern = re_current,
        description = ''Commercial vehicle format'',
        example = ''COM-123-XY'', category = Commercial\<rparr>,
      \<lparr>pattern = re_government,
        description = ''Government vehicle format'',
        example = ''ABUJA-123'', category = Government\<rparr>,
      \<lparr>pattern = re_diplomatic,
        description = ''Diplomatic vehicle format'',
        example = ''CD-123-A'', category = Diplomatic\<rparr>,
      \<lparr>pattern = re_military,
        description = ''Military vehicle format'',
        example = ''MIL-123'', category = Military\<rparr>,
      \<lparr>pattern = re_old_nohyphen,
        description = ''Old format without hyphens'',
        example = ''AB123CD'', category = Private\<rparr>]"

definition NIGERIAN_STATE_CODES :: "string list" where
  "NIGERIAN_STATE_CODES =
     [''AA'', ''AB'', ''AD'', ''AE'', ''AH'', ''AJ'', ''AK'', ''AL'', ''AM'', ''AN'', ''AO'', ''AP'', ''AR'', ''AS'', ''AT'', ''AU'', ''AW'', ''AX'', ''AY'', ''AZ'',
      ''BA'', ''BB'', ''BC'', ''BD'', ''BE'', ''BF'', ''BG'', ''BH'', ''BI'', ''BJ'', ''BK'', ''BL'', ''BM'', ''BN'', ''BO'', ''BP'', ''BQ'', ''BR'', ''BS'', ''BT'',
      ''CA'', ''CB'', ''CC'', ''CD'', ''CE'', ''CF'', ''CG'', ''CH'', ''CI'', ''CJ'', ''CK'', ''CL'', ''CM'', ''CN'', ''CO'', ''CP'', ''CQ'', ''CR'', ''CS'', ''CT'',
      ''DA'', ''DB'', ''DC'', ''DD'', ''DE'', ''DF'', ''DG'', ''DH'', ''DI'', ''DJ'', ''DK'', ''DL'', ''DM'', ''DN'', ''DO'', ''DP'', ''DQ'', ''DR'', ''DS'', ''DT'',
      ''EA'', ''EB'', ''EC'', ''ED'', ''EE'', ''EF'', ''EG'', ''EH'', ''EI'', ''EJ'', ''EK'', ''EL'', ''EM'', ''EN'', ''EO'', ''EP'', ''EQ'', ''ER'', ''ES'', ''ET'',
      ''FA'', ''FB'', ''FC'', ''FD'', ''FE'', ''FF'', ''FG'', ''FH'', ''FI'', ''FJ'', ''FK'', ''FL'', ''FM'', ''FN'', ''FO'', ''FP'', ''FQ'', ''FR'', ''FS'', ''FT'',
      ''GA'', ''GB'', ''GC'', ''GD'', ''GE'', ''GF'', ''GG'', ''GH'', ''GI'', ''GJ'', ''GK'', ''GL'', ''GM'', ''GN'', ''GO'', ''GP'', ''GQ'', ''GR'', ''GS'', ''GT'',
      ''HA'', ''HB'', ''HC'', ''HD'', ''HE'', ''HF'', ''HG'', ''HH'', ''HI'', ''HJ'', ''HK'', ''HL'', ''HM'', ''HN'', ''HO'', ''HP'', ''HQ'', ''HR'', ''HS'', ''HT'',
      ''JA'', ''JB'', ''JC'', ''JD'', ''JE'', ''JF'', ''JG'', ''JH'', ''JI'', ''JJ'', ''JK'', ''JL'', ''JM'', ''JN'', ''JO'', ''JP'', ''JQ'', ''JR'', ''JS'', ''JT'',
      ''KA'', ''KB'', ''KC'', ''KD'', ''KE'', ''KF'', ''KG'', ''KH'', ''KI'', ''KJ'', ''KK'', ''KL'', ''KM'', ''KN'', ''KO'', ''KP'', ''KQ'', ''KR'', ''KS'', ''KT'',
      ''LA'', ''LB'', ''LC'', ''LD'', ''LE'', ''LF'', ''LG'', ''LH'', ''LI'', ''LJ'', ''LK'', ''LL'', ''LM'', ''LN'', ''LO'', ''LP'', ''LQ'', ''LR'', ''LS'', ''LT'',
      ''MA'', ''MB'', ''MC'', ''MD'', ''ME'', ''MF'', ''MG'', ''MH'', ''MI'', ''MJ'', ''MK'', ''ML'', ''MM'', ''MN'', ''MO'', ''MP'', ''MQ'', ''MR'', ''MS'', ''MT'',
      ''NA'', ''NB'', ''NC'', ''ND'', ''NE'', ''NF'', ''NG'', ''NH'', ''NI'', ''NJ'', ''NK'', ''NL'', ''NM'', ''NN'', ''NO'', ''NP'', ''NQ'', ''NR'', ''NS'', ''NT'',
      ''OA'', ''OB'', ''OC'', ''OD'', ''OE'', ''OF'', ''OG'', ''OH'', ''OI'', ''OJ'', ''OK'', ''OL'', ''OM'', ''ON'', ''OO'', ''OP'', ''OQ'', ''OR'', ''OS'', ''OT'',
      ''PA'', ''PB'', ''PC'', ''PD'', ''PE'', ''PF'', ''PG'', ''PH'', ''PI'', ''PJ'', ''PK'', ''PL'', ''PM'', ''PN'', ''PO'', ''PP'', ''PQ'', ''PR'', ''PS'', ''PT'',
      ''RA'', ''RB'', ''RC'', ''RD'', ''RE'', ''RF'', ''RG'', ''RH'', ''RI'', ''RJ'', ''RK'', ''RL'', ''RM'', ''RN'', ''RO'', ''RP'', ''RQ'', ''RR'', ''RS'', ''RT'',
      ''SA'', ''SB'', ''SC'', ''SD'', ''SE'', ''SF'', ''SG'', ''SH'', ''SI'', ''SJ'', ''SK'', ''SL'', ''SM'', ''SN'', ''SO'', ''SP'', ''SQ'', ''SR'', ''SS'', ''ST'',
      ''TA'', ''TB'', ''TC'', ''TD'', ''TE'', ''TF'', ''TG'', ''TH'', ''TI'', ''TJ'', ''TK'', ''TL'', ''TM'', ''TN'', ''TO'', ''TP'', ''TQ'', ''TR'', ''TS'', ''TT'',
      ''YA'', ''YB'', ''YC'', ''YD'', ''YE'', ''YF'', ''YG'', ''YH'', ''YI'', ''YJ'', ''YK'', ''YL'', ''YM'', ''YN'', ''YO'', ''YP'', ''YQ'', ''YR'', ''YS'', ''YT'',
      ''ZA'', ''ZB'', ''ZC'', ''ZD'', ''ZE'', ''ZF'', ''ZG'', ''ZH'', ''ZI'', ''ZJ'', ''ZK'', ''ZL'', ''ZM'', ''ZN'', ''ZO'', ''ZP'', ''ZQ'', ''ZR'', ''ZS'', ''ZT'']"

definition extractStateCode :: "string \<Rightarrow> string option" where
  \<comment> \<open>\<open>plateNumber.match(/^([A-Z]{2})/)\<close>\<close>
  "extractStateCode plateNumber =
     (if 2 \<le> length plateNumber \<and> list_all isUpperAZ (take 2 plateNumber)
      then Some (take 2 plateNumber) else None)"

definition isValidStateCode :: "string \<Rightarrow> bool" where
  "isValidStateCode stateCode = (stateCode \<in> set NIGERIAN_STATE_CODES)"

subsection \<open>validatePlateNumber\<close>

record plate_validation =
  isValid :: bool
  format :: "plate_format option"
  normalized :: string
  errors :: "string list"

fun join :: "string \<Rightarrow> string list \<Rightarrow> string" where
  "join sep [] = []"
| "join sep [x] = x"
| "join sep (x # y # ys) = x @ sep @ join sep (y # ys)"

definition noFormatErrors :: "string list" where
  \<comment> \<open>the two messages pushed after the loop\<close>
  "noFormatErrors =
     [''Invalid Nigerian plate number format'',
      ''Expected formats: '' @ join '', '' (map example NIGERIAN_PLATE_FORMATS)]"

text \<open>
  The \<open>for (const format of NIGERIAN_PLATE_FORMATS)\<close> loop, on the formats still to be
  tried and the errors pushed so far. \<open>continue\<close> is the recursive call on the rest.
\<close>

fun validateLoop :: "plate_format list \<Rightarrow> string \<Rightarrow> string list \<Rightarrow> plate_validation" where
  "validateLoop [] n errs =
     \<lparr>isValid = False, format = None, normalized = n, errors = errs @ noFormatErrors\<rparr>"
| "validateLoop (f # fs) n errs =
     (if rmatch (pattern f) n then
        (case extractStateCode n of
           Some stateCode \<Rightarrow>
             if \<not> isValidStateCode stateCode
             then validateLoop fs n (errs @ [''Invalid state code: '' @ stateCode])
             else \<lparr>isValid = True, format = Some f, normalized = n, errors = []\<rparr>
         | None \<Rightarrow> \<lparr>isValid = True, format = Some f, normalized = n, errors = []\<rparr>)
      else validateLoop fs n errs)"

definition validatePlateNumber :: "string \<Rightarrow> plate_validation" where
  "validatePlateNumber plateNumber =
     (let n = normalizePlateNumber plateNumber in
      if n = [] then
        \<lparr>isValid = False, format = None, normalized = n, errors = [''Plate number is required'']\<rparr>
      else validateLoop NIGERIAN_PLATE_FORMATS n [])"

subsection \<open>Fuzzy matching\<close>

text \<open>
  JavaScript numbers are modelled by the rationals: a similarity is the exact quotient
  that the source's division rounds to a double.

  The matrix of \<open>calculateSimilarity\<close> is a list of rows, \<open>null\<close> being \<open>0\<close>; the
  loops are folds over the index ranges, each step writing one cell.
\<close>

definition setCell :: "nat list list \<Rightarrow> nat \<Rightarrow> nat \<Rightarrow> nat \<Rightarrow> nat list list" where
  \<comment> \<open>\<open>matrix[j][i] = v\<close>\<close>
  "setCell matrix j i v = matrix[j := (matrix ! j)[i := v]]"

definition initMatrix :: "string \<Rightarrow> string \<Rightarrow> nat list list" where
  "initMatrix str1 str2 =
     (let m0 = replicate (length str2 + 1) (replicate (length str1 + 1) 0);
          m1 = foldl (\<lambda>m i. setCell m 0 i i) m0 [0..<length str1 + 1];
          m2 = foldl (\<lambda>m j. setCell m j 0 j) m1 [0..<length str2 + 1]
      in m2)"

definition cellValue :: "string \<Rightarrow> string \<Rightarrow> nat list list \<Rightarrow> nat \<Rightarrow> nat \<Rightarrow> nat" where
  "cellValue str1 str2 matrix j i =
     (let substitutionCost = (if str1 ! (i - 1) = str2 ! (j - 1) then 0 else 1) in
      min (min (matrix ! j ! (i - 1) + 1) (matrix ! (j - 1) ! i + 1))
          (matrix ! (j - 1) ! (i - 1) + substitutionCost))"

definition fillRow :: "string \<Rightarrow> string \<Rightarrow> nat list list \<Rightarrow> nat \<Rightarrow> nat list list" where
  \<comment> \<open>the inner loop \<open>for (let i = 1; i <= str1.length; i++)\<close>\<close>
  "fillRow str1 str2 matrix j =
     foldl (\<lambda>m i. setCell m j i (cellValue str1 str2 m j i)) matrix [1..<length str1 + 1]"

definition fillMatrix :: "string \<Rightarrow> string \<Rightarrow> nat list list" where
  \<comment> \<open>the outer loop \<open>for (let j = 1; j <= str2.length; j++)\<close>\<close>
  "fillMatrix str1 str2 =
     foldl (fillRow str1 str2) (initMatrix str1 str2) [1..<length str2 + 1]"

definition calculateSimilarity :: "string \<Rightarrow> string \<Rightarrow> rat" where
  "calculateSimilarity str1 str2 =
     (if length str1 = 0 then (if length str2 = 0 then 1 else 0)
      else if length str2 = 0 then 0
      else
        let matrix = fillMatrix str1 str2;
            maxLength = max (length str1) (length str2)
        in (of_nat maxLength - of_nat (matrix ! length str2 ! length str1)) / of_nat maxLength)"

fun ocrMappings :: "char \<Rightarrow> string" where
  "ocrMappings c =
     (if c = CHR ''0'' then ''ODQ''
      else if c = CHR ''O'' then ''0DQ''
      else if c = CHR ''I'' then ''1LT''
      else if c = CHR ''1'' then ''ILT''
      else if c = CHR ''5'' then ''SG''
      else if c = CHR ''S'' then ''5G''
      else if c = CHR ''B'' then ''8R''
      else if c = CHR ''8'' then ''BR''
      else if c = CHR ''6'' then ''GC''
      else if c = CHR ''G'' then ''6C''
      else if c = CHR ''2'' then ''ZR''
      else if c = CHR ''Z'' then ''2R''
      else [])"

definition removeDuplicates :: "'a list \<Rightarrow> 'a list" where
  \<comment> \<open>\<open>[...new Set(xs)]\<close>: the first occurrence of each element, in order\<close>
  "removeDuplicates xs = rev (remdups (rev xs))"

definition generateOCRSuggestions :: "string \<Rightarrow> string list" where
  "generateOCRSuggestions plateNumber =
     removeDuplicates
       (concat (map (\<lambda>i. map (\<lambda>replacement.
                               take i plateNumber @ [replacement] @ drop (i + 1) plateNumber)
                             (ocrMappings (plateNumber ! i)))
                    [0..<length plateNumber]))"

record fuzzy_match =
  isMatch :: bool
  similarity :: rat
  suggestions :: "string list"

definition fuzzyMatchPlate :: "string \<Rightarrow> string \<Rightarrow> rat \<Rightarrow> fuzzy_match" where
  \<comment> \<open>the threshold defaults to \<open>0.7\<close> at the call sites that omit it\<close>
  "fuzzyMatchPlate inputPlate targetPlate threshold =
     (let normalizedInput = normalizePlateNumber inputPlate;
          normalizedTarget = normalizePlateNumber targetPlate;
          sim = calculateSimilarity normalizedInput normalizedTarget;
          sugg = (if sim > threshold - 2 / 10 then generateOCRSuggestions normalizedInput else [])
      in \<lparr>isMatch = (sim \<ge> threshold), similarity = sim, suggestions = take 5 sugg\<rparr>)"

definition getPlateCategory :: "string \<Rightarrow> plate_category option" where
  \<comment> \<open>\<open>None\<close> is the source's \<open>'unknown'\<close>\<close>
  "getPlateCategory plateNumber =
     (let validation = validatePlateNumber plateNumber in
      if isValid validation then map_option category (format validation) else None)"

subsection \<open>The Levenshtein distance\<close>

text \<open>
  The edit distance the similarity is measured against: the least number of
  single-character insertions, deletions and substitutions that turn one string into
  the other. \<open>lev\<close> computes it by the usual recursion; \<open>alignment xs ys n\<close> says that
  \<open>n\<close> such edits turn \<open>xs\<close> into \<open>ys\<close>.
\<close>

fun lev :: "'a list \<Rightarrow> 'a list \<Rightarrow> nat" where
  "lev [] ys = length ys"
| "lev (x # xs) [] = Suc (length xs)"
| "lev (x # xs) (y # ys) =
     min (min (lev xs (y # ys) + 1) (lev (x # xs) ys + 1))
         (lev xs ys + (if x = y then 0 else 1))"

inductive alignment :: "'a list \<Rightarrow> 'a list \<Rightarrow> nat \<Rightarrow> bool" where
  al_nil: "alignment [] [] 0"
| al_del: "alignment xs ys n \<Longrightarrow> alignment (x # xs) ys (Suc n)"
| al_ins: "alignment xs ys n \<Longrightarrow> alignment xs (y # ys) (Suc n)"
| al_keep: "alignment xs ys n \<Longrightarrow> alignment (x # xs) (x # ys) n"
| al_sub: "alignment xs ys n \<Longrightarrow> alignment (x # xs) (y # ys) (Suc n)"

section \<open>Persistent state (models/Payment.ts and the models ViolationType, Violation, VehicleOwner)\<close>

text \<open>
  A table is the list of its rows. The columns kept are those an operation below reads
  or writes; free-text and contact columns, which are only copied, are left out with
  their validators. Amounts (\<open>DECIMAL(10, 2)\<close>, read through \<open>Number(...)\<close>) are rationals,
  points are integers, a \<open>Date\<close> is its time stamp, and a JSON object is an association
  list.
\<close>

datatype vehicle_status = Active | Suspended | Expired | Revoked

datatype violation_status = Pending | Paid | PartiallyPaid | Contested | Dismissed | CourtPending

datatype payment_status = PaymentPending | Completed | Failed | Refunded

datatype gateway = Paystack | Flutterwave | Interswitch

datatype payment_method = Card | BankTransfer | Ussd | Cash | Pos

type_synonym date = nat

type_synonym json = "(string \<times> string) list"

record violation_type =
  vt_id :: nat
  vt_fineAmount :: rat
  vt_points :: int
  vt_isActive :: bool

record vehicle_owner =
  vo_id :: nat
  vo_licenseNumber :: "string option"
  vo_plateNumber :: string
  vo_fullName :: string
  vo_status :: vehicle_status
  vo_currentPoints :: int

record violation =
  v_id :: nat
  v_ticketNumber :: string
  v_plateNumber :: string
  v_vehicleOwnerId :: "nat option"
  v_officerId :: nat
  v_violationTypeId :: nat
  v_fineAmount :: rat
  v_points :: int
  v_locationLat :: "rat option"
  v_locationLng :: "rat option"
  v_status :: violation_status
  v_violationDate :: date
  v_paidDate :: "date option"
  v_contestDate :: "date option"
  v_contestReason :: "string option"

record payment =
  p_id :: nat
  p_violationId :: nat
  p_amount :: rat
  p_paymentMethod :: payment_method
  p_paymentReference :: string
  p_gatewayReference :: "string option"
  p_gatewayProvider :: gateway
  p_status :: payment_status
  p_paymentDate :: date
  p_gatewayResponse :: "json option"
  p_refundReason :: "string option"
  p_refundedAmount :: rat
  p_refundDate :: "date option"

record db =
  violationTypes :: "violation_type list"
  vehicleOwners :: "vehicle_owner list"
  violations :: "violation list"
  payments :: "payment list"

text \<open>
  \<open>createError(message, statusCode)\<close> of middleware/errorHandler.ts, and the other
  exceptions an operation can meet: a failed model validator, a violated \<open>unique\<close>
  column, a property read on \<open>undefined\<close>.
\<close>

datatype error =
    AppError string nat
  | SequelizeValidationError string
  | SequelizeUniqueConstraintError string
  | TypeError string

subsection \<open>Sequelize operations on the tables\<close>

definition nextId :: "nat list \<Rightarrow> nat" where
  \<comment> \<open>\<open>autoIncrement\<close>: a key above every key in use\<close>
  "nextId ids = Suc (foldr max ids 0)"

definition saveRow :: "('a \<Rightarrow> nat) \<Rightarrow> 'a \<Rightarrow> 'a list \<Rightarrow> 'a list" where
  \<comment> \<open>\<open>instance.save()\<close>: the row with the instance's primary key takes its values\<close>
  "saveRow key row rows = map (\<lambda>r. if key r = key row then row else r) rows"

definition findByPk :: "('a \<Rightarrow> nat) \<Rightarrow> nat \<Rightarrow> 'a list \<Rightarrow> 'a option" where
  "findByPk key k rows = find (\<lambda>r. key r = k) rows"

text \<open>
  \<open>Violation.create\<close>: the validators of models/Violation.ts (\<open>notEmpty\<close> on the plate,
  \<open>min: 0\<close> on fine and points, the ranges of latitude and longitude), the \<open>unique\<close>
  ticket number, and the defaults \<open>status = 'pending'\<close> and \<open>violationDate = NOW\<close>.
\<close>

definition inRange :: "rat \<Rightarrow> rat \<Rightarrow> rat option \<Rightarrow> bool" where
  "inRange lo hi x = (case x of None \<Rightarrow> True | Some y \<Rightarrow> lo \<le> y \<and> y \<le> hi)"

definition Violation_create ::
  "date \<Rightarrow> string \<Rightarrow> string \<Rightarrow> nat option \<Rightarrow> nat \<Rightarrow> nat \<Rightarrow> rat \<Rightarrow> int \<Rightarrow> rat option \<Rightarrow> rat option
     \<Rightarrow> violation list \<Rightarrow> error + violation" where
  "Violation_create now ticketNumber plateNumber vehicleOwnerId officerId violationTypeId
       fineAmount points locationLat locationLng rows =
     (if plateNumber = [] \<or> fineAmount < 0 \<or> points < 0
           \<or> \<not> inRange (- 90) 90 locationLat \<or> \<not> inRange (- 180) 180 locationLng
      then Inl (SequelizeValidationError ''Validation error'')
      else if ticketNumber \<in> set (map v_ticketNumber rows)
      then Inl (SequelizeUniqueConstraintError ''ticket_number must be unique'')
      else Inr \<lparr>v_id = nextId (map v_id rows), v_ticketNumber = ticketNumber,
                v_plateNumber = plateNumber, v_vehicleOwnerId = vehicleOwnerId,
                v_officerId = officerId, v_violationTypeId = violationTypeId,
                v_fineAmount = fineAmount, v_points = points,
                v_locationLat = locationLat, v_locationLng = locationLng,
                v_status = Pending, v_violationDate = now, v_paidDate = None,
                v_contestDate = None, v_contestReason = None\<rparr>)"

text \<open>
  \<open>Payment.create\<close>: \<open>min: 0\<close> on the amount and the \<open>unique\<close> payment reference of
  models/Payment.ts; defaults \<open>paymentDate = NOW\<close>, \<open>refundedAmount = 0\<close>.
\<close>

definition Payment_create ::
  "date \<Rightarrow> nat \<Rightarrow> rat \<Rightarrow> payment_method \<Rightarrow> string \<Rightarrow> gateway \<Rightarrow> payment list
     \<Rightarrow> error + payment" where
  "Payment_create now violationId amount paymentMethod paymentReference gatewayProvider rows =
     (if amount < 0 then Inl (SequelizeValidationError ''Validation error'')
      else if paymentReference \<in> set (map p_paymentReference rows)
      then Inl (SequelizeUniqueConstraintError ''payment_reference must be unique'')
      else Inr \<lparr>p_id = nextId (map p_id rows), p_violationId = violationId, p_amount = amount,
                p_paymentMethod = paymentMethod, p_paymentReference = paymentReference,
                p_gatewayReference = None, p_gatewayProvider = gatewayProvider,
                p_status = PaymentPending, p_paymentDate = now, p_gatewayResponse = None,
                p_refundReason = None, p_refundedAmount = 0, p_refundDate = None\<rparr>)"

section \<open>VehicleService (services/vehicleService.ts)\<close>

record lookup_result =
  lr_vehicle :: "vehicle_owner option"
  lr_plateValidation :: plate_validation
  lr_suggestions :: "string list option"

definition lookupByPlateNumber :: "db \<Rightarrow> string \<Rightarrow> lookup_result" where
  "lookupByPlateNumber d plateNumber =
     (let validation = validatePlateNumber plateNumber;
          normalizedPlate = normalized validation;
          direct = find (\<lambda>v. vo_plateNumber v = normalizedPlate) (vehicleOwners d)
      in if direct = None \<and> \<not> isValid validation then
           let fuzzyMatches =
                 take 5 (sort_key (\<lambda>m. - similarity (snd m))
                   (filter (\<lambda>m. isMatch (snd m))
                     (map (\<lambda>v. (v, fuzzyMatchPlate normalizedPlate (vo_plateNumber v) (6 / 10)))
                          (vehicleOwners d))))
           in (case fuzzyMatches of
                 [] \<Rightarrow> \<lparr>lr_vehicle = None, lr_plateValidation = validation, lr_suggestions = None\<rparr>
               | bestMatch # _ \<Rightarrow>
                   \<lparr>lr_vehicle = findByPk vo_id (vo_id (fst bestMatch)) (vehicleOwners d),
                    lr_plateValidation = validation,
                    lr_suggestions = Some (map (\<lambda>m. vo_plateNumber (fst m)) fuzzyMatches)\<rparr>)
         else \<lparr>lr_vehicle = direct, lr_plateValidation = validation, lr_suggestions = None\<rparr>)"

record vehicle_create_data =
  vc_plateNumber :: string
  vc_licenseNumber :: "string option"
  vc_fullName :: string

text \<open>
  \<open>createVehicle\<close> takes no transaction: \<open>VehicleOwner.create\<close> writes to the database
  itself, so the state returned holds the new row whatever happens to the caller later.
\<close>

definition createVehicle :: "db \<Rightarrow> vehicle_create_data \<Rightarrow> (error + vehicle_owner) \<times> db" where
  "createVehicle d data =
     (let plateValidation = validatePlateNumber (vc_plateNumber data) in
      if \<not> isValid plateValidation then
        (Inl (AppError (''Invalid plate number: '' @ join '', '' (errors plateValidation)) 400), d)
      else if find (\<lambda>v. vo_plateNumber v = normalized plateValidation) (vehicleOwners d) \<noteq> None
      then (Inl (AppError ''Plate number already exists'' 409), d)
      else if (case vc_licenseNumber data of
                 None \<Rightarrow> False
               | Some l \<Rightarrow> l \<noteq> [] \<and>
                   find (\<lambda>v. vo_licenseNumber v = Some (toUpperCase l)) (vehicleOwners d) \<noteq> None)
      then (Inl (AppError ''License number already exists'' 409), d)
      else if vc_fullName data = [] \<or> normalized plateValidation = []
      then (Inl (AppError ''Failed to create vehicle record'' 500), d)
      else
        let vehicle = \<lparr>vo_id = nextId (map vo_id (vehicleOwners d)),
                        vo_licenseNumber = map_option toUpperCase (vc_licenseNumber data),
                        vo_plateNumber = normalized plateValidation,
                        vo_fullName = vc_fullName data,
                        vo_status = Active, vo_currentPoints = 0\<rparr>
        in (Inr vehicle, d\<lparr>vehicleOwners := vehicleOwners d @ [vehicle]\<rparr>))"


section \<open>ViolationService (services/violationService, in src/services/paymentService.ts)\<close>

text \<open>
  A transaction (\<open>const transaction = await sequelize.transaction()\<close>) is a working copy
  of the state: a write that is passed \<open>{ transaction }\<close> changes the copy, a write that is
  not changes the state itself, \<open>commit\<close> returns the copy and \<open>rollback\<close> returns the
  state without the copy's changes. What the clock, the random generator and the payment
  gateway answer during a call is given to the operation as arguments.
\<close>

record violation_create_data =
  cd_plateNumber :: string
  cd_officerId :: nat
  cd_violationTypeIds :: "nat list"
  cd_locationLat :: "rat option"
  cd_locationLng :: "rat option"

record violation_create_result =
  cr_violations :: "violation list"
  cr_totalAmount :: rat
  cr_totalPoints :: int
  cr_vehicleOwner :: vehicle_owner
  cr_suspensionTriggered :: bool

text \<open>
  The loop \<open>for (const violationType of violationTypes)\<close>: \<open>rows\<close> is the violations
  table inside the transaction, \<open>ticket k\<close> the ticket number generated for the \<open>k\<close>-th row
  of the batch (\<open>TKT-${Date.now()}-${Math.floor(Math.random() * 1000)}\<close>).
\<close>

fun createLoop ::
  "date \<Rightarrow> (nat \<Rightarrow> string) \<Rightarrow> violation_create_data \<Rightarrow> vehicle_owner \<Rightarrow> violation_type list
     \<Rightarrow> nat \<Rightarrow> violation list \<Rightarrow> violation list \<Rightarrow> rat \<Rightarrow> int
     \<Rightarrow> error + (violation list \<times> violation list \<times> rat \<times> int)" where
  "createLoop now ticket data vehicleOwner [] k rows created totalAmount totalPoints =
     Inr (rows, created, totalAmount, totalPoints)"
| "createLoop now ticket data vehicleOwner (violationType # rest) k rows created totalAmount totalPoints =
     (case Violation_create now (ticket k) (vo_plateNumber vehicleOwner) (Some (vo_id vehicleOwner))
             (cd_officerId data) (vt_id violationType) (vt_fineAmount violationType)
             (vt_points violationType) (cd_locationLat data) (cd_locationLng data) rows of
        Inl e \<Rightarrow> Inl e
      | Inr violation \<Rightarrow>
          createLoop now ticket data vehicleOwner rest (Suc k) (rows @ [violation])
            (created @ [violation]) (totalAmount + vt_fineAmount violationType)
            (totalPoints + vt_points violationType))"

definition lookupOrCreate :: "db \<Rightarrow> string \<Rightarrow> (error + vehicle_owner) \<times> db" where
  \<comment> \<open>\<open>lookupByPlateNumber\<close>, then \<open>createVehicle\<close> with the placeholder name if no vehicle came back\<close>
  "lookupOrCreate d plateNumber =
     (case lr_vehicle (lookupByPlateNumber d plateNumber) of
        Some vehicleOwner \<Rightarrow> (Inr vehicleOwner, d)
      | None \<Rightarrow> createVehicle d \<lparr>vc_plateNumber = plateNumber, vc_licenseNumber = None,
                                 vc_fullName = ''Unknown Owner''\<rparr>)"

definition createViolation ::
  "date \<Rightarrow> (nat \<Rightarrow> string) \<Rightarrow> db \<Rightarrow> violation_create_data
     \<Rightarrow> (error + violation_create_result) \<times> db" where
  "createViolation now ticket d data =
     (let violationTypes1 = filter (\<lambda>t. vt_id t \<in> set (cd_violationTypeIds data) \<and> vt_isActive t)
                                   (violationTypes d)
      in if length violationTypes1 \<noteq> length (cd_violationTypeIds data)
         then (Inl (AppError ''One or more violation types are invalid or inactive'' 400), d)
         else
           (case lookupOrCreate d (cd_plateNumber data) of
              (Inl e, d1) \<Rightarrow> (Inl e, d1)
            | (Inr vehicleOwner, d1) \<Rightarrow>
                (case createLoop now ticket data vehicleOwner violationTypes1 0 (violations d1) [] 0 0 of
                   Inl e \<Rightarrow> (Inl e, d1)
                 | Inr (rows, created, totalAmount, totalPoints) \<Rightarrow>
                     let newPoints = vo_currentPoints vehicleOwner + totalPoints;
                         suspensionTriggered = (newPoints \<ge> 12 \<and> vo_status vehicleOwner = Active);
                         vehicleOwner1 = (if suspensionTriggered
                                          then vehicleOwner\<lparr>vo_status := Suspended\<rparr>
                                          else vehicleOwner);
                         vehicleOwner2 = vehicleOwner1\<lparr>vo_currentPoints := newPoints\<rparr>
                     in if newPoints \<noteq> vo_currentPoints vehicleOwner \<and> newPoints < 0
                        then (Inl (SequelizeValidationError ''Validation error''), d1)
                        else (Inr \<lparr>cr_violations = created, cr_totalAmount = totalAmount,
                                    cr_totalPoints = totalPoints, cr_vehicleOwner = vehicleOwner2,
                                    cr_suspensionTriggered = suspensionTriggered\<rparr>,
                              d1\<lparr>violations := rows,
                                 vehicleOwners := saveRow vo_id vehicleOwner2 (vehicleOwners d1)\<rparr>))))"

definition contestViolation :: "date \<Rightarrow> db \<Rightarrow> nat \<Rightarrow> string \<Rightarrow> (error + violation) \<times> db" where
  "contestViolation now d ident contestReason =
     (case findByPk v_id ident (violations d) of
        None \<Rightarrow> (Inl (AppError ''Violation not found'' 404), d)
      | Some violation \<Rightarrow>
          if v_status violation \<noteq> Pending
          then (Inl (AppError ''Only pending violations can be contested'' 400), d)
          else
            let violation1 = violation\<lparr>v_status := Contested, v_contestDate := Some now,
                                        v_contestReason := Some contestReason\<rparr>
            in (Inr violation1, d\<lparr>violations := saveRow v_id violation1 (violations d)\<rparr>))"

section \<open>PaymentService (services/paymentService.ts)\<close>

record payment_initiation_data =
  pi_violationIds :: "nat list"
  pi_paymentMethod :: payment_method
  pi_gateway :: gateway

record payment_initiation_result =
  ir_paymentUrl :: string
  ir_paymentReference :: string
  ir_totalAmount :: rat
  ir_violations :: "violation list"

text \<open>\<open>violations.map(v => Payment.create({...}, { transaction }))\<close>, on the payments table
  inside the transaction.\<close>

fun createPayments ::
  "date \<Rightarrow> payment_initiation_data \<Rightarrow> string \<Rightarrow> violation list \<Rightarrow> payment list
     \<Rightarrow> error + payment list" where
  "createPayments now data paymentReference [] rows = Inr rows"
| "createPayments now data paymentReference (violation # rest) rows =
     (case Payment_create now (v_id violation) (v_fineAmount violation) (pi_paymentMethod data)
             paymentReference (pi_gateway data) rows of
        Inl e \<Rightarrow> Inl e
      | Inr p \<Rightarrow> createPayments now data paymentReference rest (rows @ [p]))"

text \<open>
  \<open>paymentReference\<close> is the reference generated for the call, \<open>gatewayInit\<close> what the
  gateway's \<open>initializePayment\<close> does: it throws, or it returns the payment URL.
\<close>

definition initiatePayment ::
  "date \<Rightarrow> string \<Rightarrow> error + string \<Rightarrow> db \<Rightarrow> payment_initiation_data
     \<Rightarrow> (error + payment_initiation_result) \<times> db" where
  "initiatePayment now paymentReference gatewayInit d data =
     (let found = filter (\<lambda>v. v_id v \<in> set (pi_violationIds data)
                              \<and> (v_status v = Pending \<or> v_status v = PartiallyPaid))
                         (violations d)
      in if length found \<noteq> length (pi_violationIds data)
         then (Inl (AppError ''One or more violations cannot be paid or do not exist'' 400), d)
         else
           let totalAmount = sum_list (map v_fineAmount found)
           in (case createPayments now data paymentReference found (payments d) of
                 Inl e \<Rightarrow> (Inl e, d)
               | Inr rows \<Rightarrow>
                   if pi_gateway data = Paystack \<or> pi_gateway data = Flutterwave then
                     (if found = []
                      then (Inl (TypeError ''Cannot read properties of undefined (reading id)''), d)
                      else (case gatewayInit of
                              Inl e \<Rightarrow> (Inl e, d)
                            | Inr paymentUrl \<Rightarrow>
                                (Inr \<lparr>ir_paymentUrl = paymentUrl,
                                      ir_paymentReference = paymentReference,
                                      ir_totalAmount = totalAmount, ir_violations = found\<rparr>,
                                 d\<lparr>payments := rows\<rparr>)))
                   else (Inl (AppError ''Unsupported payment gateway'' 400), d)))"

record payment_verification_data =
  pv_paymentReference :: string
  pv_gateway :: gateway
  pv_gatewayReference :: "string option"

record payment_verification_result =
  vr_success :: bool
  vr_payments :: "payment list"
  vr_totalAmount :: rat

definition truthy :: "string option \<Rightarrow> bool" where
  "truthy x = (case x of None \<Rightarrow> False | Some s \<Rightarrow> s \<noteq> [])"

definition resolvedGatewayReference :: "string option \<Rightarrow> json \<Rightarrow> string" where
  \<comment> \<open>\<open>gatewayReference || verificationResponse.data.id?.toString() || ''\<close>\<close>
  "resolvedGatewayReference gatewayReference response =
     (case gatewayReference of
        Some g \<Rightarrow> if g \<noteq> [] then g
                  else (case map_of response ''id'' of Some i \<Rightarrow> i | None \<Rightarrow> [])
      | None \<Rightarrow> (case map_of response ''id'' of Some i \<Rightarrow> i | None \<Rightarrow> []))"

definition paymentSuccessful :: "gateway \<Rightarrow> json \<Rightarrow> bool" where
  "paymentSuccessful g response =
     (map_of response ''status'' = Some (if g = Paystack then ''success'' else ''successful''))"

definition completePayment :: "date \<Rightarrow> string \<Rightarrow> json \<Rightarrow> payment \<Rightarrow> payment" where
  "completePayment now gatewayRef response p =
     p\<lparr>p_status := Completed, p_gatewayReference := Some gatewayRef,
       p_gatewayResponse := Some response, p_paymentDate := now\<rparr>"

definition failPayment :: "json \<Rightarrow> payment \<Rightarrow> payment" where
  "failPayment response p = p\<lparr>p_status := Failed, p_gatewayResponse := Some response\<rparr>"

definition payViolation :: "date \<Rightarrow> violation \<Rightarrow> violation" where
  "payViolation now v = v\<lparr>v_status := Paid, v_paidDate := Some now\<rparr>"

definition pendingPayments :: "db \<Rightarrow> string \<Rightarrow> (payment \<times> violation option) list" where
  \<comment> \<open>\<open>Payment.findAll\<close> on the reference and \<open>status: 'pending'\<close>, each row with its
      included violation\<close>
  "pendingPayments d paymentReference =
     map (\<lambda>p. (p, findByPk v_id (p_violationId p) (violations d)))
         (filter (\<lambda>p. p_paymentReference p = paymentReference \<and> p_status p = PaymentPending)
                 (payments d))"

definition completeOne :: "date \<Rightarrow> string \<Rightarrow> json \<Rightarrow> db \<Rightarrow> payment \<times> violation option \<Rightarrow> db" where
  \<comment> \<open>the body of the success branch's \<open>payments.map\<close>, on the transaction's copy\<close>
  "completeOne now gatewayRef response tx pv =
     (let tx1 = tx\<lparr>payments := saveRow p_id (completePayment now gatewayRef response (fst pv))
                                          (payments tx)\<rparr>
      in case snd pv of
           None \<Rightarrow> tx1
         | Some v \<Rightarrow> tx1\<lparr>violations := saveRow v_id (payViolation now v) (violations tx1)\<rparr>)"

definition failOne :: "json \<Rightarrow> db \<Rightarrow> payment \<times> violation option \<Rightarrow> db" where
  \<comment> \<open>the body of the failure branch's \<open>payments.map\<close>\<close>
  "failOne response tx pv =
     tx\<lparr>payments := saveRow p_id (failPayment response (fst pv)) (payments tx)\<rparr>"

text \<open>
  \<open>gatewayVerify\<close> is what the gateway's \<open>verifyPayment\<close> does: it throws, or it returns
  the \<open>data\<close> object of its response.
\<close>

definition verifyPayment ::
  "date \<Rightarrow> error + json \<Rightarrow> db \<Rightarrow> payment_verification_data
     \<Rightarrow> (error + payment_verification_result) \<times> db" where
  "verifyPayment now gatewayVerify d data =
     (let pending = pendingPayments d (pv_paymentReference data)
      in if pending = []
         then (Inl (AppError ''No pending payments found for this reference'' 404), d)
         else if pv_gateway data = Paystack \<or> pv_gateway data = Flutterwave then
           (case gatewayVerify of
              Inl e \<Rightarrow> (Inl e, d)
            | Inr response \<Rightarrow>
                let gatewayRef = resolvedGatewayReference (pv_gatewayReference data) response
                in if paymentSuccessful (pv_gateway data) response then
                     let updatedPayments =
                           map (\<lambda>pv. completePayment now gatewayRef response (fst pv)) pending
                     in (Inr \<lparr>vr_success = True, vr_payments = updatedPayments,
                               vr_totalAmount = sum_list (map p_amount updatedPayments)\<rparr>,
                         foldl (completeOne now gatewayRef response) d pending)
                   else
                     (Inr \<lparr>vr_success = False,
                           vr_payments = map (\<lambda>pv. failPayment response (fst pv)) pending,
                           vr_totalAmount = 0\<rparr>,
                      foldl (failOne response) d pending))
         else (Inl (AppError ''Unsupported payment gateway'' 400), d))"

text \<open>
  \<open>gatewayRefund\<close> is what \<open>PaystackService.refundTransaction\<close> does: it throws, or it
  returns the \<open>data\<close> of its response.
\<close>

definition processRefund ::
  "date \<Rightarrow> error + string \<Rightarrow> db \<Rightarrow> nat \<Rightarrow> rat \<Rightarrow> string \<Rightarrow> nat \<Rightarrow> (error + payment) \<times> db" where
  "processRefund now gatewayRefund d paymentId refundAmount refundReason processedBy =
     (case findByPk p_id paymentId (payments d) of
        None \<Rightarrow> (Inl (AppError ''Payment not found'' 404), d)
      | Some payment \<Rightarrow>
          if p_status payment \<noteq> Completed
          then (Inl (AppError ''Only completed payments can be refunded'' 400), d)
          else if refundAmount > p_amount payment
          then (Inl (AppError ''Refund amount cannot exceed payment amount'' 400), d)
          else if p_gatewayProvider payment = Paystack then
            (if \<not> truthy (p_gatewayReference payment)
             then (Inl (AppError ''Gateway reference not found for this payment'' 400), d)
             else (case gatewayRefund of
                     Inl e \<Rightarrow> (Inl e, d)
                   | Inr refundData \<Rightarrow>
                       let payment1 = payment\<lparr>p_status := Refunded,
                               p_refundedAmount := refundAmount,
                               p_refundReason := Some refundReason,
                               p_refundDate := Some now,
                               p_gatewayResponse :=
                                 Some (AList.update ''refund'' refundData
                                        (case p_gatewayResponse payment of
                                           None \<Rightarrow> [] | Some j \<Rightarrow> j))\<rparr>;
                           tx1 = d\<lparr>payments := saveRow p_id payment1 (payments d)\<rparr>;
                           tx2 = (if refundAmount = p_amount payment then
                                    (case findByPk v_id (p_violationId payment) (violations tx1) of
                                       None \<Rightarrow> tx1
                                     | Some violation \<Rightarrow>
                                         tx1\<lparr>violations :=
                                               saveRow v_id
                                                 (violation\<lparr>v_status := Pending, v_paidDate := None\<rparr>)
                                                 (violations tx1)\<rparr>)
                                  else tx1)
                       in (Inr payment1, tx2)))
          else (Inl (AppError ''Refunds not supported for this gateway yet'' 400), d))"

section \<open>Sample states\<close>

text \<open>Concrete rows and states at which the operations are evaluated below.\<close>

definition exTypes :: "violation_type list" where
  "exTypes =
     [\<lparr>vt_id = 1, vt_fineAmount = 5000, vt_points = 3, vt_isActive = True\<rparr>,
      \<lparr>vt_id = 2, vt_fineAmount = 10000, vt_points = 2, vt_isActive = True\<rparr>,
      \<lparr>vt_id = 3, vt_fineAmount = 2000, vt_points = 1, vt_isActive = False\<rparr>]"

definition exOwner :: vehicle_owner where
  "exOwner = \<lparr>vo_id = 1, vo_licenseNumber = None, vo_plateNumber = ''LAG-123-AB'',
              vo_fullName = ''Ada Obi'', vo_status = Active, vo_currentPoints = 10\<rparr>"

definition exViolation :: "nat \<Rightarrow> nat \<Rightarrow> rat \<Rightarrow> int \<Rightarrow> violation_status \<Rightarrow> date option \<Rightarrow> violation" where
  "exViolation ident typeId fine pts st paid =
     \<lparr>v_id = ident, v_ticketNumber = ''TKT-'' @ replicate ident CHR ''I'',
      v_plateNumber = ''LAG-123-AB'', v_vehicleOwnerId = Some 1, v_officerId = 7,
      v_violationTypeId = typeId, v_fineAmount = fine, v_points = pts,
      v_locationLat = None, v_locationLng = None, v_status = st, v_violationDate = 100,
      v_paidDate = paid, v_contestDate = None, v_contestReason = None\<rparr>"

definition exPayment :: "nat \<Rightarrow> nat \<Rightarrow> rat \<Rightarrow> string \<Rightarrow> string option \<Rightarrow> payment_status \<Rightarrow> payment" where
  "exPayment ident violationId amount reference gatewayRef st =
     \<lparr>p_id = ident, p_violationId = violationId, p_amount = amount, p_paymentMethod = Card,
      p_paymentReference = reference, p_gatewayReference = gatewayRef,
      p_gatewayProvider = Paystack, p_status = st, p_paymentDate = 200,
      p_gatewayResponse = None, p_refundReason = None, p_refundedAmount = 0,
      p_refundDate = None\<rparr>"

definition exDb :: db where
  \<comment> \<open>violation 1 awaits the payment \<open>PAY_A\<close>, violation 2 was paid by \<open>PAY_B\<close>\<close>
  "exDb = \<lparr>violationTypes = exTypes, vehicleOwners = [exOwner],
           violations = [exViolation 1 1 5000 3 Pending None,
                         exViolation 2 2 10000 2 Paid (Some 250)],
           payments = [exPayment 1 1 5000 ''PAY_A'' None PaymentPending,
                       exPayment 2 2 10000 ''PAY_B'' (Some ''777'') Completed]\<rparr>"

definition exDbUnpaid :: db where
  \<comment> \<open>two pending violations, no payment yet\<close>
  "exDbUnpaid = \<lparr>violationTypes = exTypes, vehicleOwners = [exOwner],
                 violations = [exViolation 1 1 5000 3 Pending None,
                               exViolation 2 2 10000 2 Pending None],
                 payments = []\<rparr>"

section \<open>Predicates used in the proofs\<close>


definition wellShaped :: "nat \<Rightarrow> nat \<Rightarrow> nat list list \<Rightarrow> bool" where
  "wellShaped rows cols m = (length m = rows \<and> (\<forall>j < rows. length (m ! j) = cols))"

definition filled :: "string \<Rightarrow> string \<Rightarrow> nat \<Rightarrow> nat \<Rightarrow> nat list list \<Rightarrow> bool" where
  "filled a b J I m =
     (wellShaped (Suc (length b)) (Suc (length a)) m \<and>
      (\<forall>j \<le> length b. \<forall>i \<le> length a.
         (j = 0 \<or> i = 0 \<or> j < J \<or> (j = J \<and> i < I)) \<longrightarrow>
            m ! j ! i = lev (take i a) (take j b)))"


section \<open>Properties of the plate validator\<close>

subsection \<open>Normalization\<close>















subsection \<open>The edit distance and the matrix of calculateSimilarity\<close>

lemma lev_Nil2: "lev xs [] = length xs"
  by (cases xs) simp_all

lemma alignment_Nil_left: "alignment [] ys (length ys)"
  by (induction ys) (auto intro: alignment.intros)

lemma alignment_Nil_right: "alignment xs [] (length xs)"
  by (induction xs) (auto intro: alignment.intros)

lemma alignment_lev: "alignment xs ys (lev xs ys)"
proof (induction xs ys rule: lev.induct)
  case (1 ys)
  show ?case by (simp add: alignment_Nil_left)
next
  case (2 x xs)
  show ?case using alignment_Nil_right[of "x # xs"] by simp
next
  case (3 x xs y ys)
  let ?d = "lev xs (y # ys) + 1" and ?i = "lev (x # xs) ys + 1"
  let ?s = "lev xs ys + (if x = y then 0 else 1)"
  have d: "alignment (x # xs) (y # ys) ?d" using "3.IH"(1) by (auto intro: al_del)
  have i: "alignment (x # xs) (y # ys) ?i" using "3.IH"(2) by (auto intro: al_ins)
  have s: "alignment (x # xs) (y # ys) ?s" using "3.IH"(3) by (auto intro: al_keep al_sub)
  have "lev (x # xs) (y # ys) = ?d \<or> lev (x # xs) (y # ys) = ?i \<or> lev (x # xs) (y # ys) = ?s"
    by (simp add: min_def)
  then show ?case using d i s by metis
qed

lemma lev_le_alignment: "alignment xs ys n \<Longrightarrow> lev xs ys \<le> n"
proof (induction rule: alignment.induct)
  case al_nil
  show ?case by simp
next
  case (al_del xs ys n x)
  show ?case using al_del.IH by (cases ys) (simp_all add: lev_Nil2 min_def)
next
  case (al_ins xs ys n y)
  show ?case using al_ins.IH by (cases xs) (simp_all add: min_def)
next
  case (al_keep xs ys n x)
  then show ?case by (simp add: min_def)
next
  case (al_sub xs ys n x y)
  then show ?case by (simp add: min_def)
qed

lemma alignment_append:
  "alignment xs ys n \<Longrightarrow> alignment xs' ys' m \<Longrightarrow> alignment (xs @ xs') (ys @ ys') (n + m)"
  by (induction rule: alignment.induct) (auto intro: alignment.intros)

lemma alignment_rev: "alignment xs ys n \<Longrightarrow> alignment (rev xs) (rev ys) n"
proof (induction rule: alignment.induct)
  case al_nil
  show ?case by (simp add: alignment.al_nil)
next
  case (al_del xs ys n x)
  have "alignment [x] [] 1" using alignment_Nil_right[of "[x]"] by simp
  from alignment_append[OF al_del.IH this] show ?case by simp
next
  case (al_ins xs ys n y)
  have "alignment [] [y] 1" using alignment_Nil_left[of "[y]"] by simp
  from alignment_append[OF al_ins.IH this] show ?case by simp
next
  case (al_keep xs ys n x)
  have "alignment [x] [x] 0" by (intro alignment.al_keep alignment.al_nil)
  from alignment_append[OF al_keep.IH this] show ?case by simp
next
  case (al_sub xs ys n x y)
  have "alignment [x] [y] 1" using alignment.al_sub[OF alignment.al_nil, of x y] by simp
  from alignment_append[OF al_sub.IH this] show ?case by simp
qed

lemma lev_rev_le: "lev (rev xs) (rev ys) \<le> lev xs ys"
  by (rule lev_le_alignment) (rule alignment_rev, rule alignment_lev)

lemma lev_rev: "lev (rev xs) (rev ys) = lev xs ys"
  using lev_rev_le[of xs ys] lev_rev_le[of "rev xs" "rev ys"] by simp

lemma lev_is_least: "lev xs ys = (LEAST n. alignment xs ys n)"
  by (rule Least_equality[symmetric]) (auto intro: alignment_lev lev_le_alignment)

lemma lev_snoc:
  "lev (xs @ [x]) (ys @ [y]) =
     min (min (lev xs (ys @ [y]) + 1) (lev (xs @ [x]) ys + 1))
         (lev xs ys + (if x = y then 0 else 1))"
proof -
  have "lev (xs @ [x]) (ys @ [y]) = lev (x # rev xs) (y # rev ys)"
    using lev_rev[of "xs @ [x]" "ys @ [y]"] by simp
  moreover have "lev (rev xs) (y # rev ys) = lev xs (ys @ [y])"
    using lev_rev[of xs "ys @ [y]"] by simp
  moreover have "lev (x # rev xs) (rev ys) = lev (xs @ [x]) ys"
    using lev_rev[of "xs @ [x]" ys] by simp
  ultimately show ?thesis by (simp add: lev_rev)
qed

lemma lev_same: "lev xs xs = 0"
  by (induction xs) simp_all

lemma lev_le_max: "lev xs ys \<le> max (length xs) (length ys)"
  by (induction xs ys rule: lev.induct) (auto simp: min_def max_def)

lemma lev_take_Suc:
  assumes "i < length a" "j < length b"
  shows "lev (take (Suc i) a) (take (Suc j) b) =
     min (min (lev (take i a) (take (Suc j) b) + 1) (lev (take (Suc i) a) (take j b) + 1))
         (lev (take i a) (take j b) + (if a ! i = b ! j then 0 else 1))"
  using assms lev_snoc[of "take i a" "a ! i" "take j b" "b ! j"]
  by (simp add: take_Suc_conv_app_nth)

lemma foldl_upt_invariant:
  assumes "P a m" "a \<le> b"
    and step: "\<And>k m'. a \<le> k \<Longrightarrow> k < b \<Longrightarrow> P k m' \<Longrightarrow> P (Suc k) (f m' k)"
  shows "P b (foldl f m [a..<b])"
  using assms(2) step
proof (induction b)
  case 0
  then show ?case using assms(1) by simp
next
  case (Suc b)
  show ?case
  proof (cases "a = Suc b")
    case True
    then show ?thesis using assms(1) by simp
  next
    case False
    then have ab: "a \<le> b" using Suc.prems(1) by simp
    have "P b (foldl f m [a..<b])"
      by (rule Suc.IH[OF ab]) (use Suc.prems(2) in auto)
    then have "P (Suc b) (f (foldl f m [a..<b]) b)"
      using Suc.prems(2)[of b] ab by simp
    then show ?thesis using ab by simp
  qed
qed

lemma length_setCell: "length (setCell m j i v) = length m"
  by (simp add: setCell_def)

lemma length_nth_setCell: "length (setCell m j i v ! j') = length (m ! j')"
  by (cases "j < length m"; cases "j' = j") (simp_all add: setCell_def list_update_beyond)

lemma nth_setCell:
  "j < length m \<Longrightarrow> i < length (m ! j) \<Longrightarrow>
     setCell m j i v ! j' ! i' = (if j' = j \<and> i' = i then v else m ! j' ! i')"
  by (cases "j' = j"; cases "i' = i") (simp_all add: setCell_def)

lemma wellShaped_setCell: "wellShaped r c m \<Longrightarrow> wellShaped r c (setCell m j i v)"
  by (simp add: wellShaped_def length_setCell length_nth_setCell)

lemma nth_setCell_ws:
  "wellShaped r c m \<Longrightarrow> j < r \<Longrightarrow> i < c \<Longrightarrow>
     setCell m j i v ! j' ! i' = (if j' = j \<and> i' = i then v else m ! j' ! i')"
  by (rule nth_setCell) (simp_all add: wellShaped_def)

lemma init_row0:
  assumes w: "wellShaped (Suc r) c m" and k: "k \<le> c"
  shows "wellShaped (Suc r) c (foldl (\<lambda>m i. setCell m 0 i i) m [0..<k]) \<and>
         (\<forall>i < k. foldl (\<lambda>m i. setCell m 0 i i) m [0..<k] ! 0 ! i = i)"
proof (rule foldl_upt_invariant[where P = "\<lambda>k m'. wellShaped (Suc r) c m' \<and> (\<forall>i < k. m' ! 0 ! i = i)"])
  show "wellShaped (Suc r) c m \<and> (\<forall>i<0. m ! 0 ! i = i)" using w by simp
  show "0 \<le> k" by simp
next
  fix n m' assume n: "n < k" and h: "wellShaped (Suc r) c m' \<and> (\<forall>i<n. m' ! 0 ! i = i)"
  have "\<And>i. setCell m' 0 n n ! 0 ! i = (if i = n then n else m' ! 0 ! i)"
    using nth_setCell_ws[of "Suc r" c m' 0 n n 0] h n k by simp
  then show "wellShaped (Suc r) c (setCell m' 0 n n) \<and> (\<forall>i<Suc n. setCell m' 0 n n ! 0 ! i = i)"
    using h by (simp add: wellShaped_setCell less_Suc_eq)
qed

lemma init_col0:
  assumes w: "wellShaped r (Suc c) m" and r0: "\<forall>i \<le> c. m ! 0 ! i = i" and k: "k \<le> r"
  shows "wellShaped r (Suc c) (foldl (\<lambda>m j. setCell m j 0 j) m [0..<k]) \<and>
         (\<forall>i \<le> c. foldl (\<lambda>m j. setCell m j 0 j) m [0..<k] ! 0 ! i = i) \<and>
         (\<forall>j < k. foldl (\<lambda>m j. setCell m j 0 j) m [0..<k] ! j ! 0 = j)"
proof (rule foldl_upt_invariant[where P = "\<lambda>k m'. wellShaped r (Suc c) m' \<and>
      (\<forall>i \<le> c. m' ! 0 ! i = i) \<and> (\<forall>j < k. m' ! j ! 0 = j)"])
  show "wellShaped r (Suc c) m \<and> (\<forall>i\<le>c. m ! 0 ! i = i) \<and> (\<forall>j<0. m ! j ! 0 = j)"
    using w r0 by simp
  show "0 \<le> k" by simp
next
  fix n m' assume n: "n < k"
    and h: "wellShaped r (Suc c) m' \<and> (\<forall>i\<le>c. m' ! 0 ! i = i) \<and> (\<forall>j<n. m' ! j ! 0 = j)"
  have e: "\<And>j i. setCell m' n 0 n ! j ! i = (if j = n \<and> i = 0 then n else m' ! j ! i)"
    using nth_setCell_ws[of r "Suc c" m' n 0 n] h n k by simp
  show "wellShaped r (Suc c) (setCell m' n 0 n) \<and> (\<forall>i\<le>c. setCell m' n 0 n ! 0 ! i = i) \<and>
        (\<forall>j<Suc n. setCell m' n 0 n ! j ! 0 = j)"
    using h by (auto simp: e wellShaped_setCell less_Suc_eq)
qed

lemma filled_init: "filled a b (Suc 0) (Suc 0) (initMatrix a b)"
proof -
  define m0 where "m0 = replicate (Suc (length b)) (replicate (Suc (length a)) (0::nat))"
  define m1 where "m1 = foldl (\<lambda>m i. setCell m 0 i i) m0 [0..<Suc (length a)]"
  define m2 where "m2 = foldl (\<lambda>m j. setCell m j 0 j) m1 [0..<Suc (length b)]"
  have w0: "wellShaped (Suc (length b)) (Suc (length a)) m0"
    unfolding wellShaped_def m0_def by (metis length_replicate nth_replicate)
  from init_row0[OF w0, of "Suc (length a)"]
  have w1: "wellShaped (Suc (length b)) (Suc (length a)) m1" and r1: "\<forall>i \<le> length a. m1 ! 0 ! i = i"
    unfolding m1_def by (simp_all add: less_Suc_eq_le)
  from init_col0[OF w1 r1, of "Suc (length b)"]
  have w2: "wellShaped (Suc (length b)) (Suc (length a)) m2"
    and r2: "\<forall>i \<le> length a. m2 ! 0 ! i = i" and c2: "\<forall>j \<le> length b. m2 ! j ! 0 = j"
    unfolding m2_def by (simp_all add: less_Suc_eq_le)
  have "initMatrix a b = m2"
    by (simp add: initMatrix_def Let_def m0_def m1_def m2_def del: replicate.simps upt.simps)
  then show ?thesis using w2 r2 c2 by (auto simp: filled_def lev_Nil2)
qed

lemma filled_step:
  assumes f: "filled a b J I m" and J: "Suc 0 \<le> J" "J \<le> length b" and I: "Suc 0 \<le> I" "I \<le> length a"
  shows "filled a b J (Suc I) (setCell m J I (cellValue a b m J I))"
proof -
  from f have w: "wellShaped (Suc (length b)) (Suc (length a)) m"
    unfolding filled_def by blast
  from f have v: "\<And>j i. j \<le> length b \<Longrightarrow> i \<le> length a \<Longrightarrow>
              (j = 0 \<or> i = 0 \<or> j < J \<or> (j = J \<and> i < I)) \<Longrightarrow> m ! j ! i = lev (take i a) (take j b)"
    unfolding filled_def by blast
  obtain i0 j0 where ij: "I = Suc i0" "J = Suc j0" using J I by (cases I; cases J) auto
  have c1: "m ! J ! (I - 1) = lev (take i0 a) (take J b)" using v[of J i0] J I ij by auto
  have c2: "m ! (J - 1) ! I = lev (take I a) (take j0 b)" using v[of j0 I] J I ij by auto
  have c3: "m ! (J - 1) ! (I - 1) = lev (take i0 a) (take j0 b)" using v[of j0 i0] J I ij by auto
  have cv: "cellValue a b m J I = lev (take I a) (take J b)"
    using c1 c2 c3 lev_take_Suc[of i0 a j0 b] J I ij
    by (simp add: cellValue_def Let_def)
  show ?thesis
    unfolding filled_def
  proof (intro conjI allI impI)
    show "wellShaped (Suc (length b)) (Suc (length a)) (setCell m J I (cellValue a b m J I))"
      by (rule wellShaped_setCell[OF w])
  next
    fix j i assume ji: "j \<le> length b" "i \<le> length a"
      and c: "j = 0 \<or> i = 0 \<or> j < J \<or> j = J \<and> i < Suc I"
    have "setCell m J I (cellValue a b m J I) ! j ! i
            = (if j = J \<and> i = I then cellValue a b m J I else m ! j ! i)"
      using nth_setCell_ws[OF w, of J I] J I by simp
    then show "setCell m J I (cellValue a b m J I) ! j ! i = lev (take i a) (take j b)"
      using cv v[OF ji] c by (auto simp: less_Suc_eq)
  qed
qed

lemma filled_row_done:
  assumes f: "filled a b J (Suc (length a)) m"
  shows "filled a b (Suc J) (Suc 0) m"
proof -
  from f have w: "wellShaped (Suc (length b)) (Suc (length a)) m"
    unfolding filled_def by blast
  from f have v: "\<And>j i. j \<le> length b \<Longrightarrow> i \<le> length a \<Longrightarrow>
       (j = 0 \<or> i = 0 \<or> j < J \<or> (j = J \<and> i < Suc (length a))) \<Longrightarrow>
       m ! j ! i = lev (take i a) (take j b)"
    unfolding filled_def by blast
  show ?thesis
    unfolding filled_def
  proof (intro conjI allI impI)
    show "wellShaped (Suc (length b)) (Suc (length a)) m" by (rule w)
  next
    fix j i assume ji: "j \<le> length b" "i \<le> length a"
      and c: "j = 0 \<or> i = 0 \<or> j < Suc J \<or> j = Suc J \<and> i < Suc 0"
    then have "j = 0 \<or> i = 0 \<or> j < J \<or> (j = J \<and> i < Suc (length a))" by auto
    then show "m ! j ! i = lev (take i a) (take j b)" by (rule v[OF ji])
  qed
qed

lemma filled_row:
  assumes f: "filled a b J (Suc 0) m" and J: "Suc 0 \<le> J" "J \<le> length b"
  shows "filled a b (Suc J) (Suc 0) (fillRow a b m J)"
proof -
  have "filled a b J (Suc (length a))
          (foldl (\<lambda>m i. setCell m J i (cellValue a b m J i)) m [Suc 0..<Suc (length a)])"
  proof (rule foldl_upt_invariant[where P = "\<lambda>k m'. filled a b J k m'"])
    show "filled a b J (Suc 0) m" by (rule f)
    show "Suc 0 \<le> Suc (length a)" by simp
  next
    fix k m' assume "Suc 0 \<le> k" "k < Suc (length a)" "filled a b J k m'"
    then show "filled a b J (Suc k) (setCell m' J k (cellValue a b m' J k))"
      using J by (intro filled_step) simp_all
  qed
  then have "filled a b J (Suc (length a)) (fillRow a b m J)"
    by (simp add: fillRow_def)
  then show ?thesis by (rule filled_row_done)
qed

lemma filled_matrix: "filled a b (Suc (length b)) (Suc 0) (fillMatrix a b)"
proof -
  have "filled a b (Suc (length b)) (Suc 0)
          (foldl (fillRow a b) (initMatrix a b) [Suc 0..<Suc (length b)])"
  proof (rule foldl_upt_invariant[where P = "\<lambda>k m'. filled a b k (Suc 0) m'"])
    show "filled a b (Suc 0) (Suc 0) (initMatrix a b)" by (rule filled_init)
    show "Suc 0 \<le> Suc (length b)" by simp
  next
    fix k m' assume "Suc 0 \<le> k" "k < Suc (length b)" "filled a b k (Suc 0) m'"
    then show "filled a b (Suc k) (Suc 0) (fillRow a b m' k)"
      by (intro filled_row) simp_all
  qed
  then show ?thesis by (simp add: fillMatrix_def)
qed

lemma fillMatrix_lev: "fillMatrix a b ! length b ! length a = lev a b"
  using filled_matrix[of a b] unfolding filled_def by auto

lemma calculateSimilarity_lev:
  "a \<noteq> [] \<or> b \<noteq> [] \<Longrightarrow>
   calculateSimilarity a b =
     (of_nat (max (length a) (length b)) - of_nat (lev a b)) / of_nat (max (length a) (length b))"
  by (cases "a = []"; cases "b = []")
     (simp_all add: calculateSimilarity_def Let_def fillMatrix_lev lev_Nil2)

lemma calculateSimilarity_range: "0 \<le> calculateSimilarity a b \<and> calculateSimilarity a b \<le> 1"
proof (cases "a = [] \<and> b = []")
  case True
  then show ?thesis by (simp add: calculateSimilarity_def)
next
  case False
  let ?m = "max (length a) (length b)"
  have m: "0 < ?m" using False by (auto simp: max_def)
  have le: "lev a b \<le> ?m" by (rule lev_le_max)
  have eq: "calculateSimilarity a b = (of_nat ?m - of_nat (lev a b)) / of_nat ?m"
    using False by (intro calculateSimilarity_lev) auto
  have "(0::rat) \<le> of_nat ?m - of_nat (lev a b)" using le by simp
  moreover have "(of_nat ?m - of_nat (lev a b) :: rat) \<le> of_nat ?m" by simp
  ultimately show ?thesis using m unfolding eq by (simp add: divide_le_eq_1 del: of_nat_max)
qed

lemma calculateSimilarity_same: "calculateSimilarity a a = 1"
proof (cases "a = []")
  case True
  then show ?thesis by (simp add: calculateSimilarity_def)
next
  case False
  then show ?thesis using calculateSimilarity_lev[of a a] by (simp add: lev_same)
qed

lemma calculateSimilarity_one_empty:
  "(a = [] \<and> b \<noteq> []) \<or> (a \<noteq> [] \<and> b = []) \<Longrightarrow> calculateSimilarity a b = 0"
  by (auto simp: calculateSimilarity_def)

text \<open>
  C8. \<open>fuzzyMatchPlate\<close> normalizes both inputs; unless both normalized strings are
  empty, the similarity is \<open>(maxLen - d) / maxLen\<close>, with \<open>d\<close> the Levenshtein distance of
  the normalized strings and \<open>maxLen\<close> the larger of their lengths; when both are empty
  (the quotient has no value there) it is \<open>1\<close>. The similarity always lies in \<open>[0, 1]\<close>,
  it is \<open>1\<close> for a plate matched against itself, \<open>0\<close> when exactly one normalized string
  is empty, and \<open>isMatch\<close> holds exactly when the similarity reaches the threshold.
\<close>

theorem fuzzyMatchPlate_similarity:
  "(normalizePlateNumber inputPlate \<noteq> [] \<or> normalizePlateNumber targetPlate \<noteq> [] \<longrightarrow>
      similarity (fuzzyMatchPlate inputPlate targetPlate threshold) =
        (of_nat (max (length (normalizePlateNumber inputPlate)) (length (normalizePlateNumber targetPlate)))
           - of_nat (lev (normalizePlateNumber inputPlate) (normalizePlateNumber targetPlate)))
        / of_nat (max (length (normalizePlateNumber inputPlate)) (length (normalizePlateNumber targetPlate))))
   \<and> (normalizePlateNumber inputPlate = [] \<and> normalizePlateNumber targetPlate = [] \<longrightarrow>
      similarity (fuzzyMatchPlate inputPlate targetPlate threshold) = 1)
   \<and> 0 \<le> similarity (fuzzyMatchPlate inputPlate targetPlate threshold)
   \<and> similarity (fuzzyMatchPlate inputPlate targetPlate threshold) \<le> 1
   \<and> similarity (fuzzyMatchPlate x x threshold) = 1
   \<and> ((normalizePlateNumber inputPlate = []) \<noteq> (normalizePlateNumber targetPlate = []) \<longrightarrow>
      similarity (fuzzyMatchPlate inputPlate targetPlate threshold) = 0)
   \<and> (isMatch (fuzzyMatchPlate inputPlate targetPlate threshold) \<longleftrightarrow>
        similarity (fuzzyMatchPlate inputPlate targetPlate threshold) \<ge> threshold)"
proof -
  have s: "\<And>p q. similarity (fuzzyMatchPlate p q threshold)
      = calculateSimilarity (normalizePlateNumber p) (normalizePlateNumber q)"
    by (simp add: fuzzyMatchPlate_def Let_def)
  have m: "isMatch (fuzzyMatchPlate inputPlate targetPlate threshold)
      = (calculateSimilarity (normalizePlateNumber inputPlate) (normalizePlateNumber targetPlate) \<ge> threshold)"
    by (simp add: fuzzyMatchPlate_def Let_def)
  let ?a = "normalizePlateNumber inputPlate" and ?b = "normalizePlateNumber targetPlate"
  have c1: "?a \<noteq> [] \<or> ?b \<noteq> [] \<longrightarrow> calculateSimilarity ?a ?b =
        (of_nat (max (length ?a) (length ?b)) - of_nat (lev ?a ?b)) / of_nat (max (length ?a) (length ?b))"
    using calculateSimilarity_lev[of ?a ?b] by blast
  have c2: "?a = [] \<and> ?b = [] \<longrightarrow> calculateSimilarity ?a ?b = 1"
    by (simp add: calculateSimilarity_def)
  have c3: "0 \<le> calculateSimilarity ?a ?b" "calculateSimilarity ?a ?b \<le> 1"
    using calculateSimilarity_range[of ?a ?b] by simp_all
  have c4: "calculateSimilarity (normalizePlateNumber x) (normalizePlateNumber x) = 1"
    by (rule calculateSimilarity_same)
  have c5: "(?a = []) \<noteq> (?b = []) \<longrightarrow> calculateSimilarity ?a ?b = 0"
    using calculateSimilarity_one_empty[of ?a ?b] by blast
  show ?thesis
    unfolding s m using c1 c2 c3 c4 c5 by blast
qed


theorem fuzzyMatchPlate_similarity_witness:
  "normalizePlateNumber ''a b'' \<noteq> [] \<and>
   similarity (fuzzyMatchPlate ''a b'' ''AC'' (1/2)) = 1/2 \<and>
   isMatch (fuzzyMatchPlate ''a b'' ''AC'' (1/2)) \<and>
   similarity (fuzzyMatchPlate '' '' ''ABC'' (7/10)) = 0"
proof -
  have a: "normalizePlateNumber ''a b'' = ''AB''" by code_simp
  have b: "normalizePlateNumber ''AC'' = ''AC''" by code_simp
  have d: "lev ''AB'' ''AC'' = 1" by code_simp
  have e: "normalizePlateNumber '' '' = []" "normalizePlateNumber ''ABC'' = ''ABC''" by code_simp+
  show ?thesis
    using fuzzyMatchPlate_similarity[of "''a b''" "''AC''" "1/2" "[]"]
      fuzzyMatchPlate_similarity[of "'' ''" "''ABC''" "7/10" "[]"]
    unfolding a b d e by simp
qed

subsection \<open>validatePlateNumber\<close>









section \<open>Properties of the services\<close>

subsection \<open>Rows and keys\<close>

lemma findByPk_key: "findByPk key k rows = Some r \<Longrightarrow> key r = k \<and> r \<in> set rows"
  by (auto simp: findByPk_def find_Some_iff)

lemma findByPk_saveRow_same:
  "findByPk key k rows = Some r \<Longrightarrow> key row = k \<Longrightarrow> findByPk key k (saveRow key row rows) = Some row"
  by (induction rows) (auto simp: findByPk_def saveRow_def split: if_splits)

lemma findByPk_saveRow_other:
  "k \<noteq> key row \<Longrightarrow> findByPk key k (saveRow key row rows) = findByPk key k rows"
  by (induction rows) (auto simp: findByPk_def saveRow_def)

lemma map_key_saveRow: "map key (saveRow key row rows) = map key rows"
  by (induction rows) (auto simp: saveRow_def)


text \<open>
  C6. \<open>contestViolation\<close> on an existing violation succeeds only from \<open>pending\<close>: it then
  returns the violation with status \<open>contested\<close>, contest date and contest reason stamped,
  stores it under its key and leaves every other violation as it was. From any other
  status it is rejected with the error \<open>Only pending violations can be contested\<close> (400)
  and the state is unchanged.
\<close>

theorem contestViolation_guard:
  assumes found: "findByPk v_id ident (violations d) = Some v"
  shows "(v_status v = Pending \<longrightarrow>
           fst (contestViolation now d ident contestReason)
             = Inr (v\<lparr>v_status := Contested, v_contestDate := Some now,
                     v_contestReason := Some contestReason\<rparr>)
           \<and> findByPk v_id ident (violations (snd (contestViolation now d ident contestReason)))
             = Some (v\<lparr>v_status := Contested, v_contestDate := Some now,
                       v_contestReason := Some contestReason\<rparr>)
           \<and> (\<forall>k. k \<noteq> ident \<longrightarrow>
                 findByPk v_id k (violations (snd (contestViolation now d ident contestReason)))
                   = findByPk v_id k (violations d)))
       \<and> (v_status v \<noteq> Pending \<longrightarrow>
           contestViolation now d ident contestReason
             = (Inl (AppError ''Only pending violations can be contested'' 400), d))"
proof -
  have k: "v_id v = ident" using findByPk_key[OF found] by simp
  show ?thesis
    using found k
    by (simp add: contestViolation_def Let_def findByPk_saveRow_same findByPk_saveRow_other)
qed

text \<open>
  C5. \<open>processRefund\<close> on an existing payment is rejected unless the payment is
  \<open>completed\<close>, and rejected when the amount exceeds the payment's amount, the state being
  unchanged. When the gateway confirms the refund, the payment becomes \<open>refunded\<close> with
  amount, reason and date recorded; a full refund reopens the payment's violation to
  \<open>pending\<close> with no paid date, a partial refund leaves the violations table as it was.
\<close>

theorem processRefund_guard:
  assumes found: "findByPk p_id paymentId (payments d) = Some p"
  shows "(p_status p \<noteq> Completed \<longrightarrow>
            processRefund now gatewayRefund d paymentId refundAmount refundReason processedBy
              = (Inl (AppError ''Only completed payments can be refunded'' 400), d))
       \<and> (p_status p = Completed \<and> refundAmount > p_amount p \<longrightarrow>
            processRefund now gatewayRefund d paymentId refundAmount refundReason processedBy
              = (Inl (AppError ''Refund amount cannot exceed payment amount'' 400), d))
       \<and> (p_status p = Completed \<and> refundAmount \<le> p_amount p \<and> p_gatewayProvider p = Paystack
            \<and> truthy (p_gatewayReference p) \<and> gatewayRefund = Inr refundData \<longrightarrow>
            (\<exists>p' d'. processRefund now gatewayRefund d paymentId refundAmount refundReason processedBy
                        = (Inr p', d')
               \<and> p_status p' = Refunded \<and> p_refundedAmount p' = refundAmount
               \<and> p_refundReason p' = Some refundReason \<and> p_refundDate p' = Some now
               \<and> findByPk p_id paymentId (payments d') = Some p'
               \<and> (refundAmount = p_amount p \<longrightarrow>
                    (\<forall>v. findByPk v_id (p_violationId p) (violations d) = Some v \<longrightarrow>
                         findByPk v_id (p_violationId p) (violations d')
                           = Some (v\<lparr>v_status := Pending, v_paidDate := None\<rparr>)))
               \<and> (refundAmount \<noteq> p_amount p \<longrightarrow> violations d' = violations d)))"
proof (intro conjI impI)
  assume "p_status p \<noteq> Completed"
  then show "processRefund now gatewayRefund d paymentId refundAmount refundReason processedBy
              = (Inl (AppError ''Only completed payments can be refunded'' 400), d)"
    using found by (simp add: processRefund_def)
next
  assume "p_status p = Completed \<and> refundAmount > p_amount p"
  then show "processRefund now gatewayRefund d paymentId refundAmount refundReason processedBy
              = (Inl (AppError ''Refund amount cannot exceed payment amount'' 400), d)"
    using found by (simp add: processRefund_def)
next
  assume a: "p_status p = Completed \<and> refundAmount \<le> p_amount p \<and> p_gatewayProvider p = Paystack
            \<and> truthy (p_gatewayReference p) \<and> gatewayRefund = Inr refundData"
  have k: "p_id p = paymentId" using findByPk_key[OF found] by simp
  define p' where "p' = p\<lparr>p_status := Refunded, p_refundedAmount := refundAmount,
       p_refundReason := Some refundReason, p_refundDate := Some now,
       p_gatewayResponse := Some (AList.update ''refund'' refundData
           (case p_gatewayResponse p of None \<Rightarrow> [] | Some j \<Rightarrow> j))\<rparr>"
  define tx1 where "tx1 = d\<lparr>payments := saveRow p_id p' (payments d)\<rparr>"
  define tx2 where "tx2 = (if refundAmount = p_amount p then
       (case findByPk v_id (p_violationId p) (violations tx1) of
          None \<Rightarrow> tx1
        | Some violation \<Rightarrow>
            tx1\<lparr>violations := saveRow v_id (violation\<lparr>v_status := Pending, v_paidDate := None\<rparr>)
                                 (violations tx1)\<rparr>)
     else tx1)"
  have r: "processRefund now gatewayRefund d paymentId refundAmount refundReason processedBy = (Inr p', tx2)"
    using found a by (simp add: processRefund_def Let_def p'_def tx1_def tx2_def not_less[symmetric] split: option.splits)
  have kp: "p_id p' = paymentId" using k by (simp add: p'_def)
  have pt: "payments tx2 = saveRow p_id p' (payments d)"
    by (simp add: tx2_def tx1_def split: option.splits)
  have f: "findByPk p_id paymentId (payments tx2) = Some p'"
    unfolding pt by (rule findByPk_saveRow_same[OF found kp])
  have full: "refundAmount = p_amount p \<longrightarrow>
        (\<forall>v. findByPk v_id (p_violationId p) (violations d) = Some v \<longrightarrow>
            findByPk v_id (p_violationId p) (violations tx2)
              = Some (v\<lparr>v_status := Pending, v_paidDate := None\<rparr>))"
  proof (intro impI allI)
    fix v assume e: "refundAmount = p_amount p"
      and fv: "findByPk v_id (p_violationId p) (violations d) = Some v"
    have "v_id v = p_violationId p" using findByPk_key[OF fv] by simp
    then show "findByPk v_id (p_violationId p) (violations tx2)
              = Some (v\<lparr>v_status := Pending, v_paidDate := None\<rparr>)"
      using e fv by (simp add: tx2_def tx1_def findByPk_saveRow_same)
  qed
  have part: "refundAmount \<noteq> p_amount p \<longrightarrow> violations tx2 = violations d"
    by (simp add: tx2_def tx1_def)
  show "\<exists>p' d'. processRefund now gatewayRefund d paymentId refundAmount refundReason processedBy
                        = (Inr p', d')
               \<and> p_status p' = Refunded \<and> p_refundedAmount p' = refundAmount
               \<and> p_refundReason p' = Some refundReason \<and> p_refundDate p' = Some now
               \<and> findByPk p_id paymentId (payments d') = Some p'
               \<and> (refundAmount = p_amount p \<longrightarrow>
                    (\<forall>v. findByPk v_id (p_violationId p) (violations d) = Some v \<longrightarrow>
                         findByPk v_id (p_violationId p) (violations d')
                           = Some (v\<lparr>v_status := Pending, v_paidDate := None\<rparr>)))
               \<and> (refundAmount \<noteq> p_amount p \<longrightarrow> violations d' = violations d)"
    using r f full part by (intro exI[of _ p'] exI[of _ tx2]) (simp add: p'_def)
qed

subsection \<open>verifyPayment\<close>

lemma foldl_saveRow_gen:
  assumes d: "distinct (map key rows)" and k: "\<And>r. key (f r) = key r"
  shows "set ps \<subseteq> set rows \<Longrightarrow>
         foldl (\<lambda>rs p. saveRow key (f p) rs) (map (\<lambda>r. if r \<in> S then f r else r) rows) ps
           = map (\<lambda>r. if r \<in> S \<union> set ps then f r else r) rows"
proof (induction ps arbitrary: S)
  case Nil
  then show ?case by simp
next
  case (Cons p ps)
  have p: "p \<in> set rows" using Cons.prems by simp
  have eq: "\<And>r. r \<in> set rows \<Longrightarrow> (key r = key p) = (r = p)"
    using d p by (auto simp: distinct_map inj_on_def)
  have "saveRow key (f p) (map (\<lambda>r. if r \<in> S then f r else r) rows)
          = map (\<lambda>r. if r \<in> insert p S then f r else r) rows"
    unfolding saveRow_def map_map
    by (rule map_cong[OF refl]) (auto simp: k eq)
  then show ?case using Cons.IH[of "insert p S"] Cons.prems by simp
qed

lemma foldl_saveRow:
  assumes "distinct (map key rows)" "\<And>r. key (f r) = key r" "set ps \<subseteq> set rows"
  shows "foldl (\<lambda>rs p. saveRow key (f p) rs) rows ps = map (\<lambda>r. if r \<in> set ps then f r else r) rows"
  using foldl_saveRow_gen[OF assms(1,2,3), of "{}"] by simp


lemma failOne_step:
  "failOne r tx pv = tx\<lparr>payments := saveRow p_id (failPayment r (fst pv)) (payments tx)\<rparr>"
  by (simp add: failOne_def)


lemma foldl_failOne:
  "foldl (failOne r) tx pvs =
     tx\<lparr>payments := foldl (\<lambda>rs p. saveRow p_id (failPayment r p) rs) (payments tx) (map fst pvs)\<rparr>"
proof (induction pvs arbitrary: tx)
  case Nil
  then show ?case by simp
next
  case (Cons pv pvs)
  have "foldl (failOne r) tx (pv # pvs) = foldl (failOne r) (failOne r tx pv) pvs"
    by (simp only: foldl_Cons)
  also have "\<dots> = (failOne r tx pv)
       \<lparr>payments := foldl (\<lambda>rs p. saveRow p_id (failPayment r p) rs)
                          (payments (failOne r tx pv)) (map fst pvs)\<rparr>"
    by (rule Cons.IH)
  also have "\<dots> = tx
       \<lparr>payments := foldl (\<lambda>rs p. saveRow p_id (failPayment r p) rs)
                          (payments tx) (map fst (pv # pvs))\<rparr>"
    by (simp add: failOne_step)
  finally show ?case .
qed

lemma map_fst_pendingPayments:
  "map fst (pendingPayments d ref) =
     filter (\<lambda>p. p_paymentReference p = ref \<and> p_status p = PaymentPending) (payments d)"
  by (simp add: pendingPayments_def comp_def)




lemma payments_after_failure:
  assumes "distinct (map p_id (payments d))"
  shows "payments (foldl (failOne r) d (pendingPayments d ref)) =
     map (\<lambda>p. if p_paymentReference p = ref \<and> p_status p = PaymentPending
               then failPayment r p else p) (payments d)"
proof -
  have "foldl (\<lambda>rs p. saveRow p_id (failPayment r p) rs) (payments d)
          (map fst (pendingPayments d ref))
        = map (\<lambda>p. if p \<in> set (map fst (pendingPayments d ref)) then failPayment r p else p)
              (payments d)"
    by (rule foldl_saveRow[OF assms]) (auto simp: failPayment_def map_fst_pendingPayments)
  also have "\<dots> = map (\<lambda>p. if p_paymentReference p = ref \<and> p_status p = PaymentPending
               then failPayment r p else p) (payments d)"
    by (rule map_cong[OF refl]) (simp add: map_fst_pendingPayments)
  finally show ?thesis by (simp add: foldl_failOne)
qed


lemma pendingPayments_nonempty:
  "(pendingPayments d ref \<noteq> []) =
     (\<exists>p\<in>set (payments d). p_paymentReference p = ref \<and> p_status p = PaymentPending)"
  by (auto simp: pendingPayments_def filter_empty_conv)



lemma verify_failure_eq:
  assumes ne: "pendingPayments d ref \<noteq> []"
    and ref: "pv_paymentReference data = ref"
    and gw: "pv_gateway data = Paystack \<or> pv_gateway data = Flutterwave"
    and s: "\<not> paymentSuccessful (pv_gateway data) response"
  shows "verifyPayment now (Inr response) d data =
        (Inr \<lparr>vr_success = False,
              vr_payments = map (\<lambda>pv. failPayment response (fst pv)) (pendingPayments d ref),
              vr_totalAmount = 0\<rparr>,
         foldl (failOne response) d (pendingPayments d ref))"
  unfolding verifyPayment_def Let_def ref
  using ne gw s by (simp only: if_True if_False sum.case simp_thms)




text \<open>
  With the \<open>unique\<close> payment reference of models/Payment.ts, one pending payment under a
  reference means that every payment under it is pending.
\<close>

lemma unique_reference_all_pending:
  assumes u: "distinct (map p_paymentReference (payments d))"
    and p: "\<exists>p\<in>set (payments d). p_paymentReference p = ref \<and> p_status p = PaymentPending"
  shows "\<forall>p\<in>set (payments d). p_paymentReference p = ref \<longrightarrow> p_status p = PaymentPending"
proof
  fix q assume q: "q \<in> set (payments d)"
  from p obtain p where pp: "p \<in> set (payments d)" "p_paymentReference p = ref"
    "p_status p = PaymentPending" by blast
  show "p_paymentReference q = ref \<longrightarrow> p_status q = PaymentPending"
  proof
    assume "p_paymentReference q = ref"
    then have "q = p" using u q pp(1,2) by (auto simp: distinct_map inj_on_def)
    then show "p_status q = PaymentPending" using pp(3) by simp
  qed
qed


text \<open>
  C10. When the gateway reports failure, \<open>verifyPayment\<close> returns \<open>success = false\<close> and
  \<open>totalAmount = 0\<close>, and the returned payments are the pending rows of the reference,
  each marked \<open>failed\<close> and stored so in the state returned.
\<close>

theorem verifyPayment_failure_result:
  assumes pk: "distinct (map p_id (payments d))"
    and gw: "pv_gateway data = Paystack \<or> pv_gateway data = Flutterwave"
    and pend: "\<exists>p\<in>set (payments d). p_paymentReference p = pv_paymentReference data
                  \<and> p_status p = PaymentPending"
    and fail: "\<not> paymentSuccessful (pv_gateway data) response"
  shows "\<exists>res d'. verifyPayment now (Inr response) d data = (Inr res, d')
           \<and> vr_success res = False \<and> vr_totalAmount res = 0
           \<and> vr_payments res
               = map (failPayment response)
                   (filter (\<lambda>p. p_paymentReference p = pv_paymentReference data
                                \<and> p_status p = PaymentPending) (payments d))
           \<and> vr_payments res \<noteq> []
           \<and> (\<forall>p\<in>set (vr_payments res). p_status p = Failed \<and> p \<in> set (payments d'))"
proof -
  let ?ref = "pv_paymentReference data"
  let ?P = "\<lambda>p. p_paymentReference p = ?ref \<and> p_status p = PaymentPending"
  have ne: "pendingPayments d ?ref \<noteq> []" using pend by (simp add: pendingPayments_nonempty)
  note r = verify_failure_eq[OF ne refl gw fail, of now]
  have m: "map (\<lambda>pv. failPayment response (fst pv)) (pendingPayments d ?ref)
             = map (failPayment response) (filter ?P (payments d))"
    by (simp add: pendingPayments_def comp_def)
  have ps: "payments (foldl (failOne response) d (pendingPayments d ?ref)) =
        map (\<lambda>p. if ?P p then failPayment response p else p) (payments d)"
    by (rule payments_after_failure[OF pk])
  have ne2: "filter ?P (payments d) \<noteq> []" using pend by (auto simp: filter_empty_conv)
  have st: "\<forall>p\<in>set (map (failPayment response) (filter ?P (payments d))).
            p_status p = Failed \<and> p \<in> set (payments (foldl (failOne response) d (pendingPayments d ?ref)))"
  proof
    fix p assume "p \<in> set (map (failPayment response) (filter ?P (payments d)))"
    then obtain q where q: "q \<in> set (payments d)" "?P q" "p = failPayment response q" by auto
    have "p = (\<lambda>p. if ?P p then failPayment response p else p) q" using q by simp
    then have "p \<in> set (map (\<lambda>p. if ?P p then failPayment response p else p) (payments d))"
      using q(1) by (simp only: set_map image_eqI)
    moreover have "p_status p = Failed" using q(3) by (simp add: failPayment_def)
    ultimately show "p_status p = Failed \<and>
        p \<in> set (payments (foldl (failOne response) d (pendingPayments d ?ref)))"
      unfolding ps by simp
  qed
  let ?res = "\<lparr>vr_success = False,
              vr_payments = map (failPayment response) (filter ?P (payments d)),
              vr_totalAmount = 0\<rparr>"
  have "verifyPayment now (Inr response) d data
          = (Inr ?res, foldl (failOne response) d (pendingPayments d ?ref))"
    unfolding r m by (rule refl)
  moreover have "vr_success ?res = False" "vr_totalAmount ?res = 0"
    "vr_payments ?res = map (failPayment response) (filter ?P (payments d))"
    by simp_all
  moreover have "vr_payments ?res \<noteq> []" using ne2 by simp
  moreover have "\<forall>p\<in>set (vr_payments ?res). p_status p = Failed
        \<and> p \<in> set (payments (foldl (failOne response) d (pendingPayments d ?ref)))"
    using st by simp
  ultimately show ?thesis by blast
qed

subsection \<open>createViolation and the point total\<close>




lemma createVehicle_error:
  "createVehicle d data = (Inl e, d1) \<Longrightarrow> d1 = d"
  by (auto simp: createVehicle_def Let_def split: if_splits)








subsection \<open>The theorems at concrete inputs\<close>

theorem contestViolation_guard_witness:
  "findByPk v_id 1 (violations exDb) = Some (exViolation 1 1 5000 3 Pending None)
   \<and> fst (contestViolation 1000 exDb 1 ''not mine'')
       = Inr ((exViolation 1 1 5000 3 Pending None)
               \<lparr>v_status := Contested, v_contestDate := Some 1000,
                v_contestReason := Some ''not mine''\<rparr>)
   \<and> findByPk v_id 2 (violations exDb) = Some (exViolation 2 2 10000 2 Paid (Some 250))
   \<and> contestViolation 1000 exDb 2 ''not mine''
       = (Inl (AppError ''Only pending violations can be contested'' 400), exDb)"
proof -
  have h1: "findByPk v_id 1 (violations exDb) = Some (exViolation 1 1 5000 3 Pending None)"
    by (simp add: exDb_def findByPk_def exViolation_def)
  have h2: "findByPk v_id 2 (violations exDb) = Some (exViolation 2 2 10000 2 Paid (Some 250))"
    by (simp add: exDb_def findByPk_def exViolation_def)
  have s1: "v_status (exViolation 1 1 5000 3 Pending None) = Pending"
    and s2: "v_status (exViolation 2 2 10000 2 Paid (Some 250)) \<noteq> Pending"
    by (simp_all add: exViolation_def)
  show ?thesis
    using contestViolation_guard[OF h1, of 1000 "''not mine''"]
      contestViolation_guard[OF h2, of 1000 "''not mine''"] h1 h2 s1 s2
    by blast
qed

theorem processRefund_guard_witness:
  "findByPk p_id 2 (payments exDb) = Some (exPayment 2 2 10000 ''PAY_B'' (Some ''777'') Completed)
   \<and> (\<exists>p' d'. processRefund 1000 (Inr ''ok'') exDb 2 10000 ''duplicate'' 9 = (Inr p', d')
         \<and> p_status p' = Refunded \<and> p_refundedAmount p' = 10000
         \<and> findByPk v_id 2 (violations d')
             = Some ((exViolation 2 2 10000 2 Paid (Some 250))\<lparr>v_status := Pending, v_paidDate := None\<rparr>))
   \<and> findByPk p_id 1 (payments exDb) = Some (exPayment 1 1 5000 ''PAY_A'' None PaymentPending)
   \<and> processRefund 1000 (Inr ''ok'') exDb 1 5000 ''duplicate'' 9
       = (Inl (AppError ''Only completed payments can be refunded'' 400), exDb)
   \<and> processRefund 1000 (Inr ''ok'') exDb 2 10001 ''duplicate'' 9
       = (Inl (AppError ''Refund amount cannot exceed payment amount'' 400), exDb)"
proof -
  let ?p2 = "exPayment 2 2 10000 ''PAY_B'' (Some ''777'') Completed"
  let ?p1 = "exPayment 1 1 5000 ''PAY_A'' None PaymentPending"
  have h2: "findByPk p_id 2 (payments exDb) = Some ?p2"
    by (simp add: exDb_def findByPk_def exPayment_def)
  have h1: "findByPk p_id 1 (payments exDb) = Some ?p1"
    by (simp add: exDb_def findByPk_def exPayment_def)
  have f2: "p_status ?p2 = Completed" "p_amount ?p2 = 10000" "p_gatewayProvider ?p2 = Paystack"
    "truthy (p_gatewayReference ?p2)" "p_violationId ?p2 = 2"
    by (simp_all add: exPayment_def truthy_def)
  have f1: "p_status ?p1 \<noteq> Completed" by (simp add: exPayment_def)
  have v2: "findByPk v_id 2 (violations exDb) = Some (exViolation 2 2 10000 2 Paid (Some 250))"
    by (simp add: exDb_def findByPk_def exViolation_def)
  have a: "\<exists>p' d'. processRefund 1000 (Inr ''ok'') exDb 2 10000 ''duplicate'' 9 = (Inr p', d')
         \<and> p_status p' = Refunded \<and> p_refundedAmount p' = 10000
         \<and> findByPk v_id 2 (violations d')
             = Some ((exViolation 2 2 10000 2 Paid (Some 250))\<lparr>v_status := Pending, v_paidDate := None\<rparr>)"
    using processRefund_guard[OF h2, of 1000 "Inr ''ok''" 10000 "''duplicate''" 9 "''ok''"] f2 v2
    by auto
  have b: "processRefund 1000 (Inr ''ok'') exDb 1 5000 ''duplicate'' 9
       = (Inl (AppError ''Only completed payments can be refunded'' 400), exDb)"
    using processRefund_guard[OF h1, of 1000 "Inr ''ok''" 5000 "''duplicate''" 9 "''ok''"] f1
    by blast
  have c: "processRefund 1000 (Inr ''ok'') exDb 2 10001 ''duplicate'' 9
       = (Inl (AppError ''Refund amount cannot exceed payment amount'' 400), exDb)"
    using processRefund_guard[OF h2, of 1000 "Inr ''ok''" 10001 "''duplicate''" 9 "''ok''"] f2
    by simp
  show ?thesis using h2 h1 a b c by blast
qed


theorem verifyPayment_failure_result_witness:
  "distinct (map p_id (payments exDb))
   \<and> (\<exists>p\<in>set (payments exDb). p_paymentReference p = ''PAY_A'' \<and> p_status p = PaymentPending)
   \<and> \<not> paymentSuccessful Paystack [(''status'', ''failed'')]
   \<and> (\<exists>res d'. verifyPayment 1000 (Inr [(''status'', ''failed'')]) exDb
            \<lparr>pv_paymentReference = ''PAY_A'', pv_gateway = Paystack, pv_gatewayReference = None\<rparr>
              = (Inr res, d')
         \<and> vr_success res = False \<and> vr_totalAmount res = 0
         \<and> vr_payments res = [failPayment [(''status'', ''failed'')]
                                 (exPayment 1 1 5000 ''PAY_A'' None PaymentPending)]
         \<and> sum_list (map p_amount (vr_payments res)) = 5000)"
proof -
  let ?data = "\<lparr>pv_paymentReference = ''PAY_A'', pv_gateway = Paystack, pv_gatewayReference = None\<rparr>"
  have pk: "distinct (map p_id (payments exDb))" by (simp add: exDb_def exPayment_def)
  have gw: "pv_gateway ?data = Paystack \<or> pv_gateway ?data = Flutterwave" by simp
  have pend: "\<exists>p\<in>set (payments exDb). p_paymentReference p = pv_paymentReference ?data
                 \<and> p_status p = PaymentPending"
    by (simp add: exDb_def exPayment_def)
  have f: "\<not> paymentSuccessful (pv_gateway ?data) [(''status'', ''failed'')]"
    by (simp add: paymentSuccessful_def)
  have flt: "filter (\<lambda>p. p_paymentReference p = pv_paymentReference ?data \<and> p_status p = PaymentPending)
               (payments exDb) = [exPayment 1 1 5000 ''PAY_A'' None PaymentPending]"
    by (simp add: exDb_def exPayment_def)
  have amt: "p_amount (failPayment [(''status'', ''failed'')]
                (exPayment 1 1 5000 ''PAY_A'' None PaymentPending)) = 5000"
    by (simp add: failPayment_def exPayment_def)
  from verifyPayment_failure_result[OF pk gw pend f, of 1000]
  obtain res d' where r: "verifyPayment 1000 (Inr [(''status'', ''failed'')]) exDb ?data = (Inr res, d')"
    "vr_success res = False" "vr_totalAmount res = 0"
    "vr_payments res = map (failPayment [(''status'', ''failed'')])
        (filter (\<lambda>p. p_paymentReference p = pv_paymentReference ?data \<and> p_status p = PaymentPending)
               (payments exDb))"
    by blast
  have "vr_payments res = [failPayment [(''status'', ''failed'')]
                                 (exPayment 1 1 5000 ''PAY_A'' None PaymentPending)]"
    unfolding r(4) flt by simp
  then show ?thesis using pk pend f r(1,2,3) amt by auto
qed


subsection \<open>initiatePayment\<close>

lemma Payment_create_row:
  "Payment_create now vid amount method ref g rows = Inr p \<Longrightarrow>
     p_violationId p = vid \<and> p_amount p = amount \<and> p_status p = PaymentPending
     \<and> p_paymentReference p = ref \<and> p_gatewayProvider p = g \<and> ref \<notin> set (map p_paymentReference rows)"
  by (auto simp: Payment_create_def split: if_splits)

lemma createPayments_result:
  "createPayments now data ref vs rows = Inr rows' \<Longrightarrow>
     \<exists>new. rows' = rows @ new \<and> map p_violationId new = map v_id vs
        \<and> map p_amount new = map v_fineAmount vs
        \<and> (\<forall>p\<in>set new. p_status p = PaymentPending \<and> p_paymentReference p = ref
                           \<and> p_gatewayProvider p = pi_gateway data)"
proof (induction vs arbitrary: rows)
  case Nil
  then show ?case by simp
next
  case (Cons v vs)
  from Cons.prems obtain p where
    p: "Payment_create now (v_id v) (v_fineAmount v) (pi_paymentMethod data) ref (pi_gateway data) rows = Inr p"
    and rest: "createPayments now data ref vs (rows @ [p]) = Inr rows'"
    by (auto split: sum.splits)
  from Cons.IH[OF rest] obtain new where
    new: "rows' = (rows @ [p]) @ new" "map p_violationId new = map v_id vs"
      "map p_amount new = map v_fineAmount vs"
      "\<forall>p\<in>set new. p_status p = PaymentPending \<and> p_paymentReference p = ref
                           \<and> p_gatewayProvider p = pi_gateway data"
    by blast
  show ?case
    using new Payment_create_row[OF p] by (intro exI[of _ "p # new"]) simp
qed

lemma createPayments_shared_reference_fails:
  assumes "2 \<le> length vs"
  shows "\<exists>e. createPayments now data ref vs rows = Inl e"
proof -
  from assms obtain a b rest where vs: "vs = a # b # rest"
    by (cases vs; cases "tl vs") auto
  show ?thesis
  proof (cases "Payment_create now (v_id a) (v_fineAmount a) (pi_paymentMethod data) ref (pi_gateway data) rows")
    case (Inl e)
    then show ?thesis by (simp add: vs)
  next
    case (Inr p)
    have "p_paymentReference p = ref" using Payment_create_row[OF Inr] by simp
    then have "\<exists>e. Payment_create now (v_id b) (v_fineAmount b) (pi_paymentMethod data) ref
                     (pi_gateway data) (rows @ [p]) = Inl e"
      by (simp add: Payment_create_def)
    then show ?thesis using Inr by (auto simp: vs)
  qed
qed

lemma initiatePayment_failure_rolls_back:
  "fst (initiatePayment now ref gatewayInit d data) = Inl e \<Longrightarrow>
     snd (initiatePayment now ref gatewayInit d data) = d"
  by (auto simp: initiatePayment_def Let_def split: if_splits sum.splits)

lemma initiatePayment_success:
  assumes "initiatePayment now ref gatewayInit d data = (Inr res, d')"
  shows "gatewayInit = Inr (ir_paymentUrl res)
     \<and> ir_violations res = filter (\<lambda>v. v_id v \<in> set (pi_violationIds data)
                              \<and> (v_status v = Pending \<or> v_status v = PartiallyPaid)) (violations d)
     \<and> length (ir_violations res) = length (pi_violationIds data)
     \<and> (\<exists>new. payments d' = payments d @ new
            \<and> map p_violationId new = map v_id (ir_violations res)
            \<and> (\<forall>p\<in>set new. p_status p = PaymentPending \<and> p_paymentReference p = ref))
     \<and> violations d' = violations d \<and> vehicleOwners d' = vehicleOwners d"
proof -
  let ?found = "filter (\<lambda>v. v_id v \<in> set (pi_violationIds data)
                              \<and> (v_status v = Pending \<or> v_status v = PartiallyPaid)) (violations d)"
  from assms have len: "length ?found = length (pi_violationIds data)"
    by (auto simp: initiatePayment_def Let_def split: if_splits)
  from assms len obtain rows where cp: "createPayments now data ref ?found (payments d) = Inr rows"
    by (cases "createPayments now data ref ?found (payments d)")
       (auto simp: initiatePayment_def Let_def)
  from assms len cp have r: "gatewayInit = Inr (ir_paymentUrl res)" "ir_violations res = ?found"
    "d' = d\<lparr>payments := rows\<rparr>"
    by (auto simp: initiatePayment_def Let_def split: if_splits sum.splits)
  from createPayments_result[OF cp] obtain new where
    "rows = payments d @ new" "map p_violationId new = map v_id ?found"
    "\<forall>p\<in>set new. p_status p = PaymentPending \<and> p_paymentReference p = ref
                           \<and> p_gatewayProvider p = pi_gateway data"
    by blast
  then show ?thesis using r len by auto
qed

lemma initiatePayment_several_violations_fail:
  assumes "2 \<le> length (pi_violationIds data)"
  shows "\<exists>e. initiatePayment now ref gatewayInit d data = (Inl e, d)"
proof -
  let ?found = "filter (\<lambda>v. v_id v \<in> set (pi_violationIds data)
                              \<and> (v_status v = Pending \<or> v_status v = PartiallyPaid)) (violations d)"
  show ?thesis
  proof (cases "length ?found = length (pi_violationIds data)")
    case False
    then show ?thesis by (simp add: initiatePayment_def Let_def)
  next
    case True
    then have "2 \<le> length ?found" using assms by simp
    from createPayments_shared_reference_fails[OF this, of now data ref "payments d"]
    obtain e where "createPayments now data ref ?found (payments d) = Inl e" by blast
    then show ?thesis using True by (simp add: initiatePayment_def Let_def)
  qed
qed

lemma createPayments_keeps_references_unique:
  "createPayments now data ref vs rows = Inr rows' \<Longrightarrow>
     distinct (map p_paymentReference rows) \<Longrightarrow> distinct (map p_paymentReference rows')"
proof (induction vs arbitrary: rows)
  case Nil
  then show ?case by simp
next
  case (Cons v vs)
  from Cons.prems(1) obtain p where
    p: "Payment_create now (v_id v) (v_fineAmount v) (pi_paymentMethod data) ref (pi_gateway data) rows = Inr p"
    and rest: "createPayments now data ref vs (rows @ [p]) = Inr rows'"
    by (auto split: sum.splits)
  have "distinct (map p_paymentReference (rows @ [p]))"
    using Payment_create_row[OF p] Cons.prems(2) by simp
  then show ?case by (rule Cons.IH[OF rest])
qed

lemma initiatePayment_keeps_references_unique:
  assumes "distinct (map p_paymentReference (payments d))"
  shows "distinct (map p_paymentReference (payments (snd (initiatePayment now ref gatewayInit d data))))"
proof (cases "fst (initiatePayment now ref gatewayInit d data)")
  case (Inl e)
  then show ?thesis using initiatePayment_failure_rolls_back[OF Inl] assms by simp
next
  case (Inr res)
  let ?found = "filter (\<lambda>v. v_id v \<in> set (pi_violationIds data)
                              \<and> (v_status v = Pending \<or> v_status v = PartiallyPaid)) (violations d)"
  from Inr obtain rows where cp: "createPayments now data ref ?found (payments d) = Inr rows"
    and d': "snd (initiatePayment now ref gatewayInit d data) = d\<lparr>payments := rows\<rparr>"
    by (cases "createPayments now data ref ?found (payments d)")
       (auto simp: initiatePayment_def Let_def split: if_splits sum.splits)
  show ?thesis unfolding d' using createPayments_keeps_references_unique[OF cp assms] by simp
qed

text \<open>
  C7 has \<open>initiatePayment\<close> create one pending payment per violation, all sharing the
  reference generated for the call. The payment reference is a \<open>unique\<close> column
  (models/Payment.ts), so for a request naming two payable violations the second
  \<open>Payment.create\<close> violates the constraint: the call fails and the transaction is rolled
  back, whatever the gateway would have answered. Only a request for one violation can
  succeed (\<open>initiatePayment_several_violations_fail\<close>); a failed call leaves the state as it
  was (\<open>initiatePayment_failure_rolls_back\<close>).
\<close>

theorem initiatePayment_two_violations_rejected:
  "initiatePayment 1000 ''PAY_X'' (Inr ''https://checkout'') exDbUnpaid
       \<lparr>pi_violationIds = [1, 2], pi_paymentMethod = Card, pi_gateway = Paystack\<rparr>
     = (Inl (SequelizeUniqueConstraintError ''payment_reference must be unique''), exDbUnpaid)"
  by code_simp

subsection \<open>Failure of createViolation\<close>

lemma createViolation_invalid_type_rejects:
  assumes pk: "distinct (map vt_id (violationTypes d))"
    and bad: "\<exists>i\<in>set (cd_violationTypeIds data).
                \<not> (\<exists>t\<in>set (violationTypes d). vt_id t = i \<and> vt_isActive t)"
  shows "createViolation now ticket d data
           = (Inl (AppError ''One or more violation types are invalid or inactive'' 400), d)"
proof -
  let ?ids = "cd_violationTypeIds data"
  let ?ts = "filter (\<lambda>t. vt_id t \<in> set ?ids \<and> vt_isActive t) (violationTypes d)"
  from bad obtain i where i: "i \<in> set ?ids"
    "\<not> (\<exists>t\<in>set (violationTypes d). vt_id t = i \<and> vt_isActive t)" by blast
  have dist: "distinct (map vt_id ?ts)" using pk by (rule distinct_map_filter)
  have sub: "set (map vt_id ?ts) \<subseteq> set ?ids - {i}" using i(2) by auto
  have "length ?ts = card (set (map vt_id ?ts))"
    using distinct_card[OF dist] by simp
  also have "\<dots> \<le> card (set ?ids - {i})" by (rule card_mono[OF _ sub]) simp
  also have "\<dots> < card (set ?ids)" using i(1) by (intro card_Diff1_less) simp_all
  also have "\<dots> \<le> length ?ids" by (rule card_length)
  finally have "length ?ts \<noteq> length ?ids" by simp
  then show ?thesis by (simp add: createViolation_def Let_def)
qed

lemma lookupOrCreate_state:
  "lookupOrCreate d plateNumber = (r, d1) \<Longrightarrow>
     violations d1 = violations d \<and> payments d1 = payments d
     \<and> (vehicleOwners d1 = vehicleOwners d
         \<or> (\<exists>v. vehicleOwners d1 = vehicleOwners d @ [v] \<and> vo_fullName v = ''Unknown Owner''
                \<and> lr_vehicle (lookupByPlateNumber d plateNumber) = None))"
  by (auto simp: lookupOrCreate_def createVehicle_def Let_def split: option.splits if_splits)

lemma createViolation_failure_state:
  assumes "createViolation now ticket d data = (Inl e, d')"
  shows "violations d' = violations d \<and> payments d' = payments d
     \<and> (vehicleOwners d' = vehicleOwners d
         \<or> (\<exists>v. vehicleOwners d' = vehicleOwners d @ [v] \<and> vo_fullName v = ''Unknown Owner''
                \<and> lr_vehicle (lookupByPlateNumber d (cd_plateNumber data)) = None))"
proof -
  obtain r d1 where lc: "lookupOrCreate d (cd_plateNumber data) = (r, d1)"
    by (cases "lookupOrCreate d (cd_plateNumber data)") auto
  have "d' = d \<or> d' = d1"
    using assms lc
    by (auto simp: createViolation_def Let_def split: if_splits sum.splits prod.splits)
  then show ?thesis using lookupOrCreate_state[OF lc] by auto
qed

text \<open>
  C2 has no write of \<open>createViolation\<close> survive a failure. The placeholder owner of an
  unknown plate is written by \<open>createVehicle\<close>, which is not passed the transaction
  (\<open>Violation.create\<close> and \<open>vehicleOwner.save\<close> are): when
  the second violation of the batch is given the ticket number of the first (same
  millisecond, same random draw), its insertion violates the \<open>unique\<close> ticket number, the
  call fails and the violation rows are rolled back, but the placeholder owner stays.
\<close>

theorem createViolation_placeholder_survives_rollback:
  "fst (createViolation 1000 (\<lambda>k. ''TKT-1000-5'') exDbUnpaid
          \<lparr>cd_plateNumber = ''abc123de'', cd_officerId = 7, cd_violationTypeIds = [1, 2],
           cd_locationLat = None, cd_locationLng = None\<rparr>)
     = Inl (SequelizeUniqueConstraintError ''ticket_number must be unique'')
   \<and> violations (snd (createViolation 1000 (\<lambda>k. ''TKT-1000-5'') exDbUnpaid
          \<lparr>cd_plateNumber = ''abc123de'', cd_officerId = 7, cd_violationTypeIds = [1, 2],
           cd_locationLat = None, cd_locationLng = None\<rparr>))
     = violations exDbUnpaid
   \<and> vehicleOwners (snd (createViolation 1000 (\<lambda>k. ''TKT-1000-5'') exDbUnpaid
          \<lparr>cd_plateNumber = ''abc123de'', cd_officerId = 7, cd_violationTypeIds = [1, 2],
           cd_locationLat = None, cd_locationLng = None\<rparr>))
     = vehicleOwners exDbUnpaid @
         [\<lparr>vo_id = 2, vo_licenseNumber = None, vo_plateNumber = ''ABC-123-DE'',
           vo_fullName = ''Unknown Owner'', vo_status = Active, vo_currentPoints = 0\<rparr>]"
  by code_simp

end
